theory Spec2Isabelle
  imports Main
begin

text \<open>
  A model of the file relay of \<open>main.go\<close>: its \<open>Server\<close> with the registry of generated
  names, the handlers \<open>uploadHandler\<close>, \<open>downloadHandler\<close> and \<open>deleteFile\<close>, and the
  routes of \<open>main\<close>. The functions of Go's library that the handlers call
  (\<open>filepath.Ext\<close>, \<open>filepath.Join\<close>, \<open>fmt.Sprintf\<close>, \<open>url.Values\<close>,
  \<open>ParseMultipartForm\<close>, \<open>http.Error\<close>, \<open>http.ServeFile\<close>) are modelled after their
  documented behaviour on a system whose path separator is \<open>/\<close>. Integers are
  unbounded: no time or size in the model comes near the limits of \<open>int64\<close>.
\<close>

section \<open>Go values used by the server\<close>

text \<open>
  A Go \<open>string\<close> and a Go \<open>[]byte\<close> are both sequences of bytes; an Isabelle
  \<open>char\<close> is one byte, so both are modelled as \<open>char list\<close>.
\<close>

type_synonym bytes = string

text \<open>
  A \<open>time.Time\<close> obtained from \<open>time.Now()\<close> carries a wall-clock reading and a
  monotonic-clock reading, both counted here in nanoseconds. \<open>Unix()\<close> reads the wall
  clock (whole seconds, rounded down); \<open>After\<close> compares the monotonic readings when
  both operands have one, which is the case for every time the server handles;
  \<open>Add\<close> moves both readings. A \<open>time.Duration\<close> is a number of nanoseconds.
\<close>

record gotime =
  wall :: int
  mono :: int

type_synonym duration = int

definition Minute :: duration where
  "Minute = 60 * 1000000000"

definition Time_Unix :: "gotime \<Rightarrow> int" where
  "Time_Unix t = wall t div 1000000000"

definition Time_Add :: "gotime \<Rightarrow> duration \<Rightarrow> gotime" where
  "Time_Add t d = \<lparr>wall = wall t + d, mono = mono t + d\<rparr>"

definition Time_After :: "gotime \<Rightarrow> gotime \<Rightarrow> bool" where
  "Time_After t u = (mono u < mono t)"

subsection \<open>Formatting with the verb \<open>%d\<close>\<close>

definition digit_char :: "nat \<Rightarrow> char" where
  "digit_char d = ''0123456789'' ! d"

fun digits :: "nat \<Rightarrow> string" where
  "digits n = (if n < 10 then [digit_char n] else digits (n div 10) @ [digit_char (n mod 10)])"

declare digits.simps [simp del]

definition fmt_d :: "int \<Rightarrow> string" where
  "fmt_d i = (if i < 0 then CHR ''-'' # digits (nat (- i)) else digits (nat i))"

text \<open>Reading a run of decimal digits back, most significant digit first.\<close>

definition digit_val :: "char \<Rightarrow> nat" where
  "digit_val c = of_char c - 48"

definition is_digit :: "char \<Rightarrow> bool" where
  "is_digit c = (c \<in> set ''0123456789'')"

definition digits_val :: "string \<Rightarrow> nat" where
  "digits_val s = foldl (\<lambda>a c. 10 * a + digit_val c) 0 s"

subsection \<open>\<open>filepath.Ext\<close>\<close>

text \<open>
  \<^verbatim>\<open>
  func Ext(path string) string {
      for i := len(path) - 1; i >= 0 && !os.IsPathSeparator(path[i]); i-- {
          if path[i] == '.' { return path[i:] }
      }
      return ""
  }
  \<close>
  The server runs on a system whose only path separator is \<open>/\<close>. The second argument
  of \<open>Ext_loop\<close> is \<open>i + 1\<close>, so that \<open>0\<close> is the loop's exit \<open>i < 0\<close>.
\<close>

definition IsPathSeparator :: "char \<Rightarrow> bool" where
  "IsPathSeparator c = (c = CHR ''/'')"

fun Ext_loop :: "string \<Rightarrow> nat \<Rightarrow> string" where
  "Ext_loop path 0 = []"
| "Ext_loop path (Suc i) =
     (if IsPathSeparator (path ! i) then []
      else if path ! i = CHR ''.'' then drop i path
      else Ext_loop path i)"

definition Ext :: "string \<Rightarrow> string" where
  "Ext path = Ext_loop path (length path)"

subsection \<open>The generated storage name (lines 80 and 81 of \<open>uploadHandler\<close>)\<close>

definition newFileName :: "gotime \<Rightarrow> string \<Rightarrow> string" where
  "newFileName now Filename = ''simplehost'' @ ''-'' @ fmt_d (Time_Unix now) @ Ext Filename"

subsection \<open>\<open>filepath.Clean\<close> and \<open>filepath.Join\<close>\<close>

text \<open>
  \<open>Clean\<close> works on the elements between separators: it drops empty elements and
  \<open>.\<close>, lets \<open>..\<close> remove the real element before it, drops \<open>..\<close> at the start of a
  rooted path and keeps it at the start of a relative one; the empty result is \<open>.\<close>.
  \<open>out\<close> holds the elements written so far (Go's output buffer, where the barrier
  \<open>dotdot\<close> stands after the leading \<open>..\<close> elements or the leading separator).
\<close>

fun split_on :: "char \<Rightarrow> string \<Rightarrow> string list" where
  "split_on sep [] = [[]]"
| "split_on sep (c # cs) =
     (if c = sep then [] # split_on sep cs
      else (case split_on sep cs of
              [] \<Rightarrow> [[c]]
            | x # xs \<Rightarrow> (c # x) # xs))"

definition clean_elem :: "bool \<Rightarrow> string list \<Rightarrow> string \<Rightarrow> string list" where
  "clean_elem rooted out e =
     (if e = [] \<or> e = ''.'' then out
      else if e = ''..'' then
        (if out \<noteq> [] \<and> last out \<noteq> ''..'' then butlast out
         else if \<not> rooted then out @ [''..'']
         else out)
      else out @ [e])"

fun join_sep :: "string list \<Rightarrow> string" where
  "join_sep [] = []"
| "join_sep [x] = x"
| "join_sep (x # y # ys) = x @ CHR ''/'' # join_sep (y # ys)"

definition render :: "bool \<Rightarrow> string list \<Rightarrow> string" where
  "render rooted out =
     (if rooted then CHR ''/'' # join_sep out
      else if out = [] then ''.''
      else join_sep out)"

definition Clean :: "string \<Rightarrow> string" where
  "Clean path =
     (if path = [] then ''.''
      else let rooted = IsPathSeparator (hd path)
           in render rooted (foldl (clean_elem rooted) [] (split_on (CHR ''/'') path)))"

text \<open>
  \<open>Join\<close> of two elements: empty elements are ignored, the rest is joined with the
  separator and cleaned; the join of no non-empty element is the empty string.
\<close>

definition Join :: "string \<Rightarrow> string \<Rightarrow> string" where
  "Join a b =
     (if a \<noteq> [] then Clean (a @ ''/'' @ b)
      else if b \<noteq> [] then Clean b
      else [])"

subsection \<open>\<open>url.Values\<close>: parsing the query of a request\<close>

text \<open>
  \<open>r.URL.Query()\<close> parses \<open>RawQuery\<close> and drops the pairs it cannot decode:
  the query is cut at every \<open>&\<close>; a piece that holds \<open>;\<close> or is empty is skipped;
  the piece is cut at its first \<open>=\<close>; key and value are unescaped (\<open>%XX\<close> is the byte
  \<open>XX\<close>, \<open>+\<close> is a space), and a piece whose key or value does not unescape is skipped.
  \<open>Get\<close> returns the first value of a key, or the empty string.
\<close>

definition ishex :: "char \<Rightarrow> bool" where
  "ishex c = (c \<in> set ''0123456789abcdefABCDEF'')"

definition unhex :: "char \<Rightarrow> nat" where
  "unhex c =
     (if c \<in> set ''0123456789'' then of_char c - 48
      else if c \<in> set ''abcdef'' then of_char c - 97 + 10
      else if c \<in> set ''ABCDEF'' then of_char c - 65 + 10
      else 0)"

fun QueryUnescape :: "string \<Rightarrow> string option" where
  "QueryUnescape [] = Some []"
| "QueryUnescape (c # cs) =
     (if c = CHR ''%'' then
        (case cs of
           a # b # rest \<Rightarrow>
             (if ishex a \<and> ishex b
              then map_option ((#) (char_of (unhex a * 16 + unhex b))) (QueryUnescape rest)
              else None)
         | _ \<Rightarrow> None)
      else if c = CHR ''+'' then map_option ((#) CHR '' '') (QueryUnescape cs)
      else map_option ((#) c) (QueryUnescape cs))"

definition Cut :: "char \<Rightarrow> string \<Rightarrow> string \<times> string" where
  "Cut sep s = (takeWhile (\<lambda>c. c \<noteq> sep) s, drop 1 (dropWhile (\<lambda>c. c \<noteq> sep) s))"

definition parse_pair :: "string \<Rightarrow> (string \<times> string) option" where
  "parse_pair piece =
     (if CHR '';'' \<in> set piece then None
      else if piece = [] then None
      else (case Cut (CHR ''='') piece of
              (key, val) \<Rightarrow>
                (case QueryUnescape key of
                   None \<Rightarrow> None
                 | Some key' \<Rightarrow>
                     (case QueryUnescape val of
                        None \<Rightarrow> None
                      | Some val' \<Rightarrow> Some (key', val')))))"

definition ParseQuery :: "string \<Rightarrow> (string \<times> string) list" where
  "ParseQuery query = List.map_filter parse_pair (split_on (CHR ''&'') query)"

definition Values_Get :: "(string \<times> string) list \<Rightarrow> string \<Rightarrow> string" where
  "Values_Get v key = (case map_of v key of None \<Rightarrow> [] | Some val \<Rightarrow> val)"

section \<open>The server, its environment and its effects\<close>

text \<open>
  \<open>world\<close> is the \<open>Server\<close> struct (\<open>storagePath\<close>, \<open>files\<close>) together with what its
  methods act on: the files on disk (\<open>disk\<close>, from path to contents), the timers set
  with \<open>time.AfterFunc\<close> that have not fired yet (each a duration and the name its
  callback passes to \<open>deleteFile\<close>), and the lines printed so far. Every handler runs
  as one step; the mutex \<open>mu\<close> is not modelled.
\<close>

record world =
  storagePath :: string
  files :: "string \<rightharpoonup> gotime"
  disk :: "string \<rightharpoonup> bytes"
  timers :: "(duration \<times> string) list"
  stdout :: "string list"

definition NewServer :: "string \<Rightarrow> (string \<rightharpoonup> bytes) \<Rightarrow> world" where
  "NewServer root d = \<lparr>storagePath = root, files = Map.empty, disk = d, timers = [], stdout = []\<rparr>"

text \<open>
  What one run of a handler gets from outside: the readings of \<open>time.Now()\<close> (the
  first and, in \<open>uploadHandler\<close>, the second), and whether the operating system lets
  each call succeed. \<open>copy_stops = Some k\<close>: \<open>io.Copy\<close> fails after writing \<open>k\<close> bytes.
  \<open>remove_fault = Some msg\<close>: \<open>os.Remove\<close> fails with \<open>msg\<close> on a file that exists.
  \<open>serve_fault\<close>: \<open>http.ServeFile\<close>, which opens the file once more, is refused by the
  system. \<open>modtime\<close>: the modification time of the file served, as the header
  \<open>Last-Modified\<close> prints it, or \<open>None\<close> for the zero time. \<open>serves_whole\<close>: what
  \<open>http.ServeFile\<close> decides for a request that carries a condition or a range, namely
  whether it serves the whole file all the same (the conditions hold and the range is
  absent or ignored).
\<close>

datatype serve_error = Forbidden | InternalError

record env =
  now1 :: gotime
  now2 :: gotime
  tmp_fails :: bool
  part_open_fails :: bool
  create_fails :: bool
  copy_stops :: "nat option"
  open_fails :: bool
  stat_fails :: bool
  remove_fault :: "string option"
  serve_fault :: "serve_error option"
  modtime :: "string option"
  serves_whole :: bool

text \<open>
  The effects of a handler, in the order of the statements that cause them. Opening a
  file for reading and serving it change nothing but are recorded with their path.
\<close>

datatype effect =
    OsCreate string
  | IoCopy string bytes
  | OsOpen string
  | ServeFileOf string
  | OsRemove string
  | MapStore string gotime
  | MapDelete string
  | AfterFunc duration string
  | Printf string

fun apply_effect :: "world \<Rightarrow> effect \<Rightarrow> world" where
  "apply_effect w (OsCreate p) = w\<lparr>disk := (disk w)(p \<mapsto> [])\<rparr>"
| "apply_effect w (IoCopy p d) =
     w\<lparr>disk := (disk w)(p \<mapsto> (case disk w p of None \<Rightarrow> d | Some old \<Rightarrow> old @ d))\<rparr>"
| "apply_effect w (OsOpen p) = w"
| "apply_effect w (ServeFileOf p) = w"
| "apply_effect w (OsRemove p) = w\<lparr>disk := (disk w)(p := None)\<rparr>"
| "apply_effect w (MapStore n t) = w\<lparr>files := (files w)(n \<mapsto> t)\<rparr>"
| "apply_effect w (MapDelete n) = w\<lparr>files := (files w)(n := None)\<rparr>"
| "apply_effect w (AfterFunc d n) = w\<lparr>timers := timers w @ [(d, n)]\<rparr>"
| "apply_effect w (Printf l) = w\<lparr>stdout := stdout w @ [l]\<rparr>"

definition run_effects :: "world \<Rightarrow> effect list \<Rightarrow> world" where
  "run_effects w es = foldl apply_effect w es"

subsection \<open>Requests and responses\<close>

text \<open>
  A request as the handlers read it. \<open>Header\<close> holds the request's header fields
  under their canonical names. \<open>Multipart\<close> is the body cut into its parts, or
  \<open>None\<close> when \<open>ParseMultipartForm\<close> cannot read the request as a form: it is not a
  well-formed \<open>multipart/form-data\<close> request, its URL query does not parse, or it has
  more parts than \<open>net/http\<close> accepts. A part has its form name, its file name as
  \<open>Part.FileName()\<close> returns it (the base name of the name the client sent, empty for a
  part that is not a file), and its data.
\<close>

record part =
  FormName :: string
  FileName :: string
  data :: bytes

record request =
  Method :: string
  Path :: string
  RawQuery :: string
  Header :: "(string \<times> string) list"
  Multipart :: "part list option"

text \<open>
  The two HTML pages are kept as constructors: \<open>UploadedPage name link\<close> is the
  template of \<open>uploadHandler\<close> filled with the new name and the download link.
\<close>

datatype body =
    Text string
  | UploadForm
  | UploadedPage string string
  | FileBytes bytes
  | NoBody

record response =
  status :: nat
  header :: "(string \<times> string) list"
  body :: body

text \<open>
  A reply is what a handler writes to its \<open>ResponseWriter\<close>, or the panic that ends it.
  \<open>Negotiated\<close> stands for the answers other than the whole file that
  \<open>http.ServeFile\<close> gives to a request with a condition or a range: a part of the
  file (206), 304, 412 or 416. Their headers and bodies are not modelled.
\<close>

datatype reply = Reply response | Panic | Negotiated

definition Header_Del :: "string \<Rightarrow> (string \<times> string) list \<Rightarrow> (string \<times> string) list" where
  "Header_Del k h = filter (\<lambda>kv. fst kv \<noteq> k) h"

definition Header_Set :: "string \<Rightarrow> string \<Rightarrow> (string \<times> string) list \<Rightarrow> (string \<times> string) list" where
  "Header_Set k v h = Header_Del k h @ [(k, v)]"

definition newline :: string where
  "newline = [CHR 0x0A]"

definition http_Error :: "(string \<times> string) list \<Rightarrow> string \<Rightarrow> nat \<Rightarrow> response" where
  "http_Error h msg code =
     \<lparr>status = code,
      header = Header_Set ''X-Content-Type-Options'' ''nosniff''
                 (Header_Set ''Content-Type'' ''text/plain; charset=utf-8''
                   (Header_Del ''Content-Length'' h)),
      body = Text (msg @ newline)\<rparr>"

definition StatusOK :: nat where "StatusOK = 200"
definition StatusMovedPermanently :: nat where "StatusMovedPermanently = 301"
definition StatusForbidden :: nat where "StatusForbidden = 403"
definition StatusBadRequest :: nat where "StatusBadRequest = 400"
definition StatusNotFound :: nat where "StatusNotFound = 404"
definition StatusMethodNotAllowed :: nat where "StatusMethodNotAllowed = 405"
definition StatusInternalServerError :: nat where "StatusInternalServerError = 500"

subsection \<open>\<open>ParseMultipartForm\<close> and \<open>FormFile\<close>\<close>

text \<open>
  \<open>ParseMultipartForm(maxMemory)\<close> parses the whole body. A part without a form name
  is skipped. A part without a file name is a value: values are kept in memory, at most
  \<open>maxMemory\<close> plus 10 MB of them, and more is \<open>ErrMessageTooLarge\<close>. A part with a file
  name is a file: it stays in memory while the file parts fit into \<open>maxMemory\<close> bytes,
  and otherwise goes to a temporary file, whatever its size. (Later releases of Go also
  charge the names and headers of the parts to the memory budget and bound the number
  of parts; that bookkeeping is left out. No release bounds the size of a file part.)
\<close>

record FileHeader =
  Filename :: string
  content :: bytes
  tmpfile :: bool

record Form =
  Value :: "(string \<times> string) list"
  File :: "(string \<times> FileHeader) list"

datatype parse_error = ErrNotMultipart | ErrMessageTooLarge | ErrTempFile

fun ReadForm :: "bool \<Rightarrow> int \<Rightarrow> int \<Rightarrow> part list \<Rightarrow> Form \<Rightarrow> parse_error + Form" where
  "ReadForm tmp_bad maxMemory maxValueBytes [] form = Inr form"
| "ReadForm tmp_bad maxMemory maxValueBytes (p # ps) form =
     (if FormName p = [] then ReadForm tmp_bad maxMemory maxValueBytes ps form
      else if FileName p = [] then
        (let n = min (int (length (data p))) (maxValueBytes + 1)
         in if maxValueBytes - n < 0 then Inl ErrMessageTooLarge
            else ReadForm tmp_bad maxMemory (maxValueBytes - n) ps
                   (form\<lparr>Value := Value form @ [(FormName p, data p)]\<rparr>))
      else
        (let n = min (int (length (data p))) (maxMemory + 1)
         in if n > maxMemory then
              (if tmp_bad then Inl ErrTempFile
               else ReadForm tmp_bad maxMemory maxValueBytes ps
                      (form\<lparr>File := File form @
                         [(FormName p, \<lparr>Filename = FileName p, content = data p, tmpfile = True\<rparr>)]\<rparr>))
            else ReadForm tmp_bad (maxMemory - n) (maxValueBytes - n) ps
                   (form\<lparr>File := File form @
                      [(FormName p, \<lparr>Filename = FileName p, content = data p, tmpfile = False\<rparr>)]\<rparr>)))"

definition ParseMultipartForm :: "int \<Rightarrow> env \<Rightarrow> request \<Rightarrow> parse_error + Form" where
  "ParseMultipartForm maxMemory e r =
     (case Multipart r of
        None \<Rightarrow> Inl ErrNotMultipart
      | Some ps \<Rightarrow>
          ReadForm (tmp_fails e) maxMemory (maxMemory + 10 * 2 ^ 20) ps \<lparr>Value = [], File = []\<rparr>)"

text \<open>
  \<open>FormFile(key)\<close> opens the first file of the form under \<open>key\<close>; opening a part kept in
  a temporary file can fail.
\<close>

definition FormFile :: "env \<Rightarrow> Form \<Rightarrow> string \<Rightarrow> (bytes \<times> FileHeader) option" where
  "FormFile e form key =
     (case map_of (File form) key of
        None \<Rightarrow> None
      | Some fh \<Rightarrow> if tmpfile fh \<and> part_open_fails e then None else Some (content fh, fh))"

section \<open>The handlers\<close>

definition uploadPageHandler :: "reply \<times> effect list" where
  "uploadPageHandler =
     (Reply \<lparr>status = StatusOK, header = Header_Set ''Content-Type'' ''text/html'' [],
             body = UploadForm\<rparr>, [])"

definition downloadLink :: "string \<Rightarrow> string" where
  "downloadLink name = ''/download?file='' @ name"

definition expiryDuration :: duration where
  "expiryDuration = 60 * Minute"

definition uploadHandler :: "world \<Rightarrow> env \<Rightarrow> request \<Rightarrow> reply \<times> effect list" where
  "uploadHandler s e r =
     (if Method r \<noteq> ''POST''
      then (Reply (http_Error [] ''Only POST method is allowed'' StatusMethodNotAllowed), [])
      else case ParseMultipartForm (10 * 2 ^ 20) e r of
        Inl err \<Rightarrow> (Reply (http_Error [] ''Unable to parse form'' StatusBadRequest), [])
      | Inr form \<Rightarrow>
         (case FormFile e form ''file'' of
            None \<Rightarrow>
              (Reply (http_Error [] ''Unable to get the file from form'' StatusBadRequest), [])
          | Some (file, handler) \<Rightarrow>
              (let name = newFileName (now1 e) (Filename handler);
                   filePath = Join (storagePath s) name
               in if create_fails e
                  then (Reply (http_Error [] ''Unable to create the file on server''
                                 StatusInternalServerError), [])
                  else case copy_stops e of
                    Some k \<Rightarrow>
                      (Reply (http_Error [] ''Unable to save the file'' StatusInternalServerError),
                       [OsCreate filePath, IoCopy filePath (take k file)])
                  | None \<Rightarrow>
                      (Reply \<lparr>status = StatusOK,
                              header = Header_Set ''Content-Type'' ''text/html'' [],
                              body = UploadedPage name (downloadLink name)\<rparr>,
                       [OsCreate filePath, IoCopy filePath file,
                        MapStore name (Time_Add (now2 e) expiryDuration),
                        AfterFunc expiryDuration name]))))"

text \<open>
  \<open>os.Open\<close> finds the file on disk unless the system refuses. The disk holds regular
  files only. \<open>http.DetectContentType\<close> is a parameter of \<open>downloadHandler\<close>.
\<close>

definition os_Open :: "world \<Rightarrow> env \<Rightarrow> string \<Rightarrow> bytes option" where
  "os_Open s e p = (if open_fails e then None else disk s p)"

text \<open>
  \<open>http.ServeFile(w, r, name)\<close> reads the request: it refuses a URL path with an
  element \<open>..\<close>, redirects a URL path that ends in \<open>/index.html\<close>, and opens the file
  (404 when it is missing, 403 or 500 when the system refuses). Then it sets
  \<open>Last-Modified\<close>; a request with a condition or a range may get another answer
  than the whole file (\<open>Negotiated\<close>); otherwise the answer is 200 with
  \<open>Accept-Ranges\<close>, the \<open>Content-Length\<close> of the file and the headers already set,
  and with the bytes of the file unless the method is HEAD, for which no body is written.
\<close>

definition HasSuffix :: "string \<Rightarrow> string \<Rightarrow> bool" where
  "HasSuffix s suffix =
     (length suffix \<le> length s \<and> drop (length s - length suffix) s = suffix)"

definition containsDotDot :: "string \<Rightarrow> bool" where
  "containsDotDot v =
     list_ex (\<lambda>ent. ent = ''..'') (concat (map (split_on (CHR 0x5C)) (split_on (CHR ''/'') v)))"

definition conditional :: "request \<Rightarrow> bool" where
  "conditional r =
     list_ex (\<lambda>k. case map_of (Header r) k of None \<Rightarrow> False | Some v \<Rightarrow> v \<noteq> [])
       [''If-Match'', ''If-Unmodified-Since'', ''If-None-Match'', ''If-Modified-Since'',
        ''Range'']"

definition toHTTPError :: "serve_error \<Rightarrow> string \<times> nat" where
  "toHTTPError err =
     (case err of
        Forbidden \<Rightarrow> (''403 Forbidden'', StatusForbidden)
      | InternalError \<Rightarrow> (''500 Internal Server Error'', StatusInternalServerError))"

definition ServeFile ::
    "world \<Rightarrow> env \<Rightarrow> (string \<times> string) list \<Rightarrow> request \<Rightarrow> string \<Rightarrow> reply" where
  "ServeFile s e h r name =
     (if containsDotDot (Path r) then Reply (http_Error h ''invalid URL path'' StatusBadRequest)
      else if HasSuffix (Path r) ''/index.html''
      then Reply \<lparr>status = StatusMovedPermanently,
                  header = Header_Set ''Location''
                             (''./'' @ (if RawQuery r = [] then [] else CHR ''?'' # RawQuery r)) h,
                  body = NoBody\<rparr>
      else case disk s name of
        None \<Rightarrow> Reply (http_Error h ''404 page not found'' StatusNotFound)
      | Some d \<Rightarrow>
          (case serve_fault e of
             Some err \<Rightarrow> Reply (http_Error h (fst (toHTTPError err)) (snd (toHTTPError err)))
           | None \<Rightarrow>
               if conditional r \<and> \<not> serves_whole e then Negotiated
               else Reply
                 \<lparr>status = StatusOK,
                  header = Header_Set ''Content-Length'' (fmt_d (int (length d)))
                             (Header_Set ''Accept-Ranges'' ''bytes''
                               (case modtime e of
                                  None \<Rightarrow> h
                                | Some t \<Rightarrow> Header_Set ''Last-Modified'' t h)),
                  body = (if Method r = ''HEAD'' then NoBody else FileBytes d)\<rparr>))"

definition downloadHandler ::
    "(bytes \<Rightarrow> string) \<Rightarrow> world \<Rightarrow> env \<Rightarrow> request \<Rightarrow> reply \<times> effect list" where
  "downloadHandler DetectContentType s e r =
     (let fileName = Values_Get (ParseQuery (RawQuery r)) ''file''
      in if fileName = []
         then (Reply (http_Error [] ''File name is required'' StatusBadRequest), [])
         else if (case files s fileName of
                    None \<Rightarrow> True
                  | Some expiryTime \<Rightarrow> Time_After (now1 e) expiryTime)
         then (Reply (http_Error [] ''File not found or expired'' StatusNotFound), [])
         else let filePath = Join (storagePath s) fileName
              in case os_Open s e filePath of
                   None \<Rightarrow> (Reply (http_Error [] ''File not found'' StatusNotFound),
                            [OsOpen filePath])
                 | Some file \<Rightarrow>
                     if stat_fails e then (Panic, [OsOpen filePath])
                     else
                       (let contentType = DetectContentType (replicate (length file) (CHR 0x00));
                            h = Header_Set ''Content-Length'' (fmt_d (int (length file)))
                                  (Header_Set ''Content-Type'' contentType
                                    (Header_Set ''Content-Disposition''
                                       (''attachment; filename='' @ [CHR 0x22] @ fileName @ [CHR 0x22])
                                       []))
                        in (ServeFile s e h r filePath,
                            [OsOpen filePath, ServeFileOf filePath])))"

text \<open>
  \<open>os.Remove\<close> fails on a missing file, or when the system refuses; the error text is
  what \<open>deleteFile\<close> prints. \<open>deleteFile\<close> returns nothing: its effects are all it does.
\<close>

definition os_Remove :: "world \<Rightarrow> env \<Rightarrow> string \<Rightarrow> string option" where
  "os_Remove s e p =
     (case disk s p of
        None \<Rightarrow> Some (''remove '' @ p @ '': no such file or directory'')
      | Some d \<Rightarrow> remove_fault e)"

definition deleteFile :: "world \<Rightarrow> env \<Rightarrow> string \<Rightarrow> effect list" where
  "deleteFile s e fileName =
     (let filePath = Join (storagePath s) fileName
      in case os_Remove s e filePath of
           Some err \<Rightarrow> [Printf (''Error deleting file: '' @ err @ newline)]
         | None \<Rightarrow>
             [OsRemove filePath, MapDelete fileName,
              Printf (''File deleted: '' @ fileName @ newline)])"

subsection \<open>The routes of \<open>main\<close> and the steps of the server\<close>

text \<open>
  \<open>main\<close> registers \<open>/upload\<close> (GET is answered 404, POST goes to \<open>uploadHandler\<close>,
  any other method gets the empty default answer), \<open>/download\<close> and, for every other
  path, the upload page. The redirect that the multiplexer sends, before any handler
  runs, for a path that is not clean is not modelled.
\<close>

definition ServeHTTP ::
    "(bytes \<Rightarrow> string) \<Rightarrow> world \<Rightarrow> env \<Rightarrow> request \<Rightarrow> reply \<times> effect list" where
  "ServeHTTP DetectContentType s e r =
     (if Path r = ''/upload'' then
        (if Method r = ''GET''
         then (Reply (http_Error [] (''Route Doesn'' @ [CHR 0x27] @ ''t Exist :/'') StatusNotFound), [])
         else if Method r = ''POST'' then uploadHandler s e r
         else (Reply \<lparr>status = StatusOK, header = [], body = NoBody\<rparr>, []))
      else if Path r = ''/download'' then downloadHandler DetectContentType s e r
      else uploadPageHandler)"

text \<open>
  A client that fetches a link sends a GET request whose target is the link: the path
  is the text before the first \<open>?\<close>, the raw query the text after it; it carries no
  condition and no range.
\<close>

definition fetch :: "string \<Rightarrow> request" where
  "fetch link =
     \<lparr>Method = ''GET'', Path = fst (Cut (CHR ''?'') link), RawQuery = snd (Cut (CHR ''?'') link),
      Header = [], Multipart = None\<rparr>"

text \<open>
  A step of the server is a request, or the firing of one pending timer, which runs
  \<open>deleteFile\<close> on the timer's name. Timers may fire in any order and at any time.
\<close>

datatype step = Request env request | Timer nat env

fun do_step :: "(bytes \<Rightarrow> string) \<Rightarrow> world \<Rightarrow> step \<Rightarrow> world" where
  "do_step D w (Request e r) = run_effects w (snd (ServeHTTP D w e r))"
| "do_step D w (Timer i e) =
     (if i < length (timers w)
      then run_effects (w\<lparr>timers := take i (timers w) @ drop (Suc i) (timers w)\<rparr>)
             (deleteFile w e (snd (timers w ! i)))
      else w)"

definition run :: "(bytes \<Rightarrow> string) \<Rightarrow> world \<Rightarrow> step list \<Rightarrow> world" where
  "run D w steps = foldl (do_step D) w steps"

section \<open>Auxiliary definitions for the proofs\<close>

text \<open>
  \<open>ext_scan\<close> is the loop of \<open>Ext\<close> run over the reversed path, collecting the bytes it
  passes; \<open>ext_char\<close> are the bytes the loop steps over.
\<close>

fun ext_scan :: "string \<Rightarrow> string \<Rightarrow> string" where
  "ext_scan [] acc = []"
| "ext_scan (c # cs) acc =
     (if c = CHR ''/'' then [] else if c = CHR ''.'' then c # acc else ext_scan cs (c # acc))"

definition ext_char :: "char \<Rightarrow> bool" where
  "ext_char c = (c \<noteq> CHR ''.'' \<and> c \<noteq> CHR ''/'')"

text \<open>What holds of the elements that \<open>Clean\<close> has written: none is empty, \<open>.\<close> or split.\<close>

definition clean_inv :: "string list \<Rightarrow> bool" where
  "clean_inv out = list_all (\<lambda>x. x \<noteq> [] \<and> x \<noteq> ''.'' \<and> CHR ''/'' \<notin> set x) out"

section \<open>Concrete inputs\<close>

text \<open>
  The scenario of the specification: at Unix time 1700000000 a client posts a form whose
  part \<open>file\<close> carries a file name and its bytes, to a server started on \<open>./uploads\<close>
  with an empty disk; nothing fails in the environment. \<open>example_detect\<close> is a detector
  that looks at the first byte it is given.
\<close>

definition example_env :: env where
  "example_env =
     \<lparr>now1 = \<lparr>wall = 1700000000 * 1000000000 + 250, mono = 5000\<rparr>,
      now2 = \<lparr>wall = 1700000000 * 1000000000 + 900, mono = 5650\<rparr>,
      tmp_fails = False, part_open_fails = False, create_fails = False, copy_stops = None,
      open_fails = False, stat_fails = False, remove_fault = None, serve_fault = None,
      modtime = Some ''Tue, 14 Nov 2023 22:13:20 GMT'', serves_whole = False\<rparr>"

definition example_upload :: "string \<Rightarrow> bytes \<Rightarrow> request" where
  "example_upload f d =
     \<lparr>Method = ''POST'', Path = ''/upload'', RawQuery = [], Header = [],
      Multipart = Some [\<lparr>FormName = ''file'', FileName = f, data = d\<rparr>]\<rparr>"

definition example_world :: world where
  "example_world = NewServer ''./uploads'' Map.empty"

definition example_detect :: "bytes \<Rightarrow> string" where
  "example_detect d =
     (case d of
        [] \<Rightarrow> ''text/plain; charset=utf-8''
      | c # cs \<Rightarrow> if c = CHR ''%'' then ''application/pdf'' else ''application/octet-stream'')"

text \<open>The server after it has accepted the upload of \<open>report.pdf\<close> with the bytes \<open>abc\<close>.\<close>

definition example_uploaded :: world where
  "example_uploaded =
     \<lparr>storagePath = ''./uploads'',
      files = [''simplehost-1700000000.pdf'' \<mapsto>
                 \<lparr>wall = 1700003600 * 1000000000 + 900, mono = 3600000005650\<rparr>],
      disk = [''uploads/simplehost-1700000000.pdf'' \<mapsto> ''abc''],
      timers = [(3600000000000, ''simplehost-1700000000.pdf'')],
      stdout = []\<rparr>"

text \<open>
  Two later moments for a download: the very instant recorded as the expiry of that
  upload, and one nanosecond after it.
\<close>

definition example_env_at_expiry :: env where
  "example_env_at_expiry =
     example_env\<lparr>now1 := \<lparr>wall = 1700003600 * 1000000000 + 900, mono = 3600000005650\<rparr>\<rparr>"

definition example_env_expired :: env where
  "example_env_expired =
     example_env\<lparr>now1 := \<lparr>wall = 1700003600 * 1000000000 + 901, mono = 3600000005651\<rparr>\<rparr>"

text \<open>
  The same server with other bytes of the same length in the stored file, and the answer
  to a download of that name when the file holds the three bytes \<open>b\<close>.
\<close>

definition example_uploaded_pdf :: world where
  "example_uploaded_pdf =
     example_uploaded\<lparr>disk := [''uploads/simplehost-1700000000.pdf'' \<mapsto> ''%PD'']\<rparr>"

definition example_reply :: "bytes \<Rightarrow> response" where
  "example_reply b =
     \<lparr>status = 200,
      header = [(''Content-Disposition'',
                   ''attachment; filename='' @ [CHR 0x22] @ ''simplehost-1700000000.pdf'' @ [CHR 0x22]),
                (''Content-Type'', ''application/octet-stream''),
                (''Last-Modified'', ''Tue, 14 Nov 2023 22:13:20 GMT''),
                (''Accept-Ranges'', ''bytes''),
                (''Content-Length'', ''3'')],
      body = FileBytes b\<rparr>"

text \<open>The same form sent with another method, and an environment where the copy stops.\<close>

definition example_put :: request where
  "example_put = (example_upload ''report.pdf'' ''abc'')\<lparr>Method := ''PUT''\<rparr>"

definition example_env_copy_stops :: env where
  "example_env_copy_stops = example_env\<lparr>copy_stops := Some 1\<rparr>"

text \<open>
  A file of one byte more than 10 MiB, and the server after it has accepted the upload
  of \<open>notes.c++\<close>.
\<close>

definition example_big :: bytes where
  "example_big = replicate 10485761 (CHR 0x00)"

definition example_uploaded_cpp :: world where
  "example_uploaded_cpp =
     \<lparr>storagePath = ''./uploads'',
      files = [''simplehost-1700000000.c++'' \<mapsto>
                 \<lparr>wall = 1700003600 * 1000000000 + 900, mono = 3600000005650\<rparr>],
      disk = [''uploads/simplehost-1700000000.c++'' \<mapsto> ''abc''],
      timers = [(3600000000000, ''simplehost-1700000000.c++'')],
      stdout = []\<rparr>"

text \<open>The download of that file asked for with the method HEAD.\<close>

definition example_head :: request where
  "example_head = (fetch ''/download?file=simplehost-1700000000.pdf'')\<lparr>Method := ''HEAD''\<rparr>"

section \<open>Notions of the specification\<close>

text \<open>
  \<open>dir_entry dir name\<close> is the path of the entry \<open>name\<close> directly inside the cleaned
  directory \<open>dir\<close>. A \<open>plain_name\<close> is one path element that is neither empty nor \<open>.\<close>
  nor \<open>..\<close>. \<open>has_dotdot\<close> finds two dots in a row.
\<close>

definition dir_entry :: "string \<Rightarrow> string \<Rightarrow> string" where
  "dir_entry dir name =
     (if dir = ''.'' then name
      else if dir = ''/'' then CHR ''/'' # name
      else dir @ CHR ''/'' # name)"

definition plain_name :: "string \<Rightarrow> bool" where
  "plain_name name = (name \<noteq> [] \<and> name \<noteq> ''.'' \<and> name \<noteq> ''..'' \<and> CHR ''/'' \<notin> set name)"

fun has_dotdot :: "string \<Rightarrow> bool" where
  "has_dotdot (a # b # cs) = ((a = CHR ''.'' \<and> b = CHR ''.'') \<or> has_dotdot (b # cs))"
| "has_dotdot cs = False"

text \<open>An upload has succeeded when the handler has answered with status 200.\<close>

definition succeeded :: "reply \<Rightarrow> bool" where
  "succeeded rep = (case rep of Reply resp \<Rightarrow> status resp = StatusOK | _ \<Rightarrow> False)"

text \<open>The bytes that the decoding of a query leaves as they are and does not cut at.\<close>

definition query_safe :: "char \<Rightarrow> bool" where
  "query_safe c = (c \<noteq> CHR ''&'' \<and> c \<noteq> CHR '';'' \<and> c \<noteq> CHR ''%'' \<and> c \<noteq> CHR ''+'')"

section \<open>Formatting and extensions\<close>

lemma digit_char_is_digit: "d < 10 \<Longrightarrow> is_digit (digit_char d)"
proof -
  assume "d < 10"
  then have "d \<in> {0,1,2,3,4,5,6,7,8,9}" by auto
  then show ?thesis by (auto simp: is_digit_def digit_char_def)
qed

lemma digit_val_digit_char: "d < 10 \<Longrightarrow> digit_val (digit_char d) = d"
proof -
  assume "d < 10"
  then have "d \<in> {0,1,2,3,4,5,6,7,8,9}" by auto
  then show ?thesis by (auto simp: digit_val_def digit_char_def)
qed

lemma digits_all_digit: "list_all is_digit (digits n)"
proof (induction n rule: digits.induct)
  case (1 n)
  show ?case
  proof (cases "n < 10")
    case True
    then show ?thesis by (subst digits.simps) (simp add: digit_char_is_digit)
  next
    case False
    with 1 show ?thesis by (subst digits.simps) (simp add: digit_char_is_digit)
  qed
qed

lemma digits_nonempty: "digits n \<noteq> []"
  by (subst digits.simps) simp

lemma digits_val_snoc: "digits_val (s @ [c]) = 10 * digits_val s + digit_val c"
  by (simp add: digits_val_def)

lemma digits_val_digits: "digits_val (digits n) = n"
proof (induction n rule: digits.induct)
  case (1 n)
  show ?case
  proof (cases "n < 10")
    case True
    then show ?thesis by (subst digits.simps) (simp add: digits_val_def digit_val_digit_char)
  next
    case False
    with 1 show ?thesis
      by (subst digits.simps) (simp add: digits_val_snoc digit_val_digit_char)
  qed
qed

lemma is_digit_not_dot: "is_digit c \<Longrightarrow> c \<noteq> CHR ''.'' \<and> c \<noteq> CHR ''/''"
  by (auto simp: is_digit_def)

lemma fmt_d_chars: "c \<in> set (fmt_d i) \<Longrightarrow> c \<noteq> CHR ''.'' \<and> c \<noteq> CHR ''/''"
  using digits_all_digit [of "nat i"] digits_all_digit [of "nat (- i)"]
  by (auto simp: fmt_d_def list_all_iff dest: is_digit_not_dot split: if_splits)

lemma Ext_loop_scan: "i \<le> length p \<Longrightarrow> Ext_loop p i = ext_scan (rev (take i p)) (drop i p)"
proof (induction i)
  case 0
  then show ?case by simp
next
  case (Suc i)
  then have lt: "i < length p" by simp
  have d: "drop i p = p ! i # drop (Suc i) p" using lt by (simp add: Cons_nth_drop_Suc)
  show ?case using Suc lt by (simp add: take_Suc_conv_app_nth IsPathSeparator_def d)
qed

lemma ext_scan_append:
  "\<forall>c \<in> set xs. c \<noteq> CHR ''.'' \<and> c \<noteq> CHR ''/'' \<Longrightarrow> ext_scan (xs @ ys) acc = ext_scan ys (rev xs @ acc)"
  by (induction xs arbitrary: acc) auto

lemma ext_scan_dropWhile:
  "ext_scan xs acc =
     (case dropWhile ext_char xs of
        [] \<Rightarrow> []
      | c # cs \<Rightarrow> if c = CHR ''.'' then CHR ''.'' # rev (takeWhile ext_char xs) @ acc else [])"
proof (induction xs arbitrary: acc)
  case Nil
  show ?case by simp
next
  case (Cons c cs)
  show ?case
  proof (cases "ext_char c")
    case True
    then have "ext_scan (c # cs) acc = ext_scan cs (c # acc)" by (simp add: ext_char_def)
    also have "\<dots> = (case dropWhile ext_char cs of
        [] \<Rightarrow> []
      | d # ds \<Rightarrow> if d = CHR ''.'' then CHR ''.'' # rev (takeWhile ext_char cs) @ c # acc else [])"
      by (rule Cons.IH)
    finally have e: "ext_scan (c # cs) acc = (case dropWhile ext_char cs of
        [] \<Rightarrow> []
      | d # ds \<Rightarrow> if d = CHR ''.'' then CHR ''.'' # rev (takeWhile ext_char cs) @ c # acc else [])" .
    have t: "takeWhile ext_char (c # cs) = c # takeWhile ext_char cs"
        "dropWhile ext_char (c # cs) = dropWhile ext_char cs"
      using True by simp_all
    show ?thesis unfolding e t by (cases "dropWhile ext_char cs") (simp_all del: dropWhile_eq_Nil_conv)
  next
    case False
    then have "c = CHR ''.'' \<or> c = CHR ''/''" by (simp add: ext_char_def)
    then show ?thesis using False by auto
  qed
qed

lemma Ext_scan: "Ext p = ext_scan (rev p) []"
  by (simp add: Ext_def Ext_loop_scan)

lemma Ext_cases:
  "Ext p = [] \<or> (\<exists>pre x. p = pre @ CHR ''.'' # x \<and> Ext p = CHR ''.'' # x \<and>
       CHR ''.'' \<notin> set x \<and> CHR ''/'' \<notin> set x)"
proof (cases "Ext p = []")
  case True
  then show ?thesis by simp
next
  case False
  define a where "a = takeWhile ext_char (rev p)"
  from False obtain b where b: "dropWhile ext_char (rev p) = CHR ''.'' # b"
    by (auto simp: Ext_scan ext_scan_dropWhile split: list.splits if_splits)
  then have e: "Ext p = CHR ''.'' # rev a"
    by (simp add: Ext_scan ext_scan_dropWhile a_def)
  have "rev p = a @ CHR ''.'' # b"
    using takeWhile_dropWhile_id [of ext_char "rev p"] b by (simp add: a_def)
  then have "rev (rev p) = rev (a @ CHR ''.'' # b)" by simp
  then have p: "p = rev b @ CHR ''.'' # rev a" by simp
  have "\<forall>c \<in> set a. ext_char c" unfolding a_def by (auto dest: set_takeWhileD)
  then have n: "CHR ''.'' \<notin> set (rev a) \<and> CHR ''/'' \<notin> set (rev a)"
    by (auto simp: ext_char_def)
  from p e n show ?thesis by blast
qed

lemma Ext_suffix:
  assumes "CHR ''.'' \<notin> set x" "CHR ''/'' \<notin> set x"
  shows "Ext (pre @ CHR ''.'' # x) = CHR ''.'' # x"
proof -
  have "ext_scan (rev x @ CHR ''.'' # rev pre) [] = ext_scan (CHR ''.'' # rev pre) (rev (rev x) @ [])"
    using assms by (intro ext_scan_append) auto
  then show ?thesis by (simp add: Ext_scan)
qed

lemma Ext_no_dot:
  assumes "CHR ''.'' \<notin> set p"
  shows "Ext p = []"
  using Ext_cases [of p] assms by auto

lemma ext_scan_nonempty: "CHR ''/'' \<notin> set a \<Longrightarrow> ext_scan (a @ CHR ''.'' # b) acc \<noteq> []"
  by (induction a arbitrary: acc) auto

lemma Ext_nonempty_iff:
  "Ext p \<noteq> [] \<longleftrightarrow> (\<exists>pre x. p = pre @ CHR ''.'' # x \<and> CHR ''/'' \<notin> set x)"
proof
  assume "Ext p \<noteq> []"
  then show "\<exists>pre x. p = pre @ CHR ''.'' # x \<and> CHR ''/'' \<notin> set x" using Ext_cases [of p] by blast
next
  assume "\<exists>pre x. p = pre @ CHR ''.'' # x \<and> CHR ''/'' \<notin> set x"
  then obtain pre x where px: "p = pre @ CHR ''.'' # x" "CHR ''/'' \<notin> set x" by blast
  then show "Ext p \<noteq> []"
    using ext_scan_nonempty [of "rev x" "rev pre" "[]"] by (simp add: Ext_scan)
qed

lemma newFileName_chars:
  "newFileName now f = ''simplehost-'' @ fmt_d (Time_Unix now) @ Ext f"
  by (simp add: newFileName_def)

lemma Ext_newFileName: "Ext (newFileName now f) = Ext f"
proof -
  define pfx where "pfx = ''simplehost'' @ ''-'' @ fmt_d (Time_Unix now)"
  have n: "newFileName now f = pfx @ Ext f" by (simp add: newFileName_def pfx_def)
  have pre: "CHR ''.'' \<notin> set pfx"
    using fmt_d_chars [of "CHR ''.''" "Time_Unix now"] by (auto simp: pfx_def)
  from Ext_cases [of f] show ?thesis
  proof
    assume e: "Ext f = []"
    then show ?thesis using Ext_no_dot [OF pre] n by simp
  next
    assume "\<exists>pre x. f = pre @ CHR ''.'' # x \<and> Ext f = CHR ''.'' # x \<and> CHR ''.'' \<notin> set x \<and> CHR ''/'' \<notin> set x"
    then obtain x where x: "Ext f = CHR ''.'' # x" "CHR ''.'' \<notin> set x" "CHR ''/'' \<notin> set x" by blast
    show ?thesis unfolding n x(1) by (rule Ext_suffix [OF x(2,3)])
  qed
qed

section \<open>Cleaning and joining paths\<close>

lemma split_on_nonempty: "split_on c s \<noteq> []"
  by (induction s) (auto split: list.splits)

lemma split_on_append: "split_on c (xs @ c # ys) = split_on c xs @ split_on c ys"
proof (induction xs)
  case Nil
  show ?case by simp
next
  case (Cons x xs)
  show ?case
  proof (cases "x = c")
    case True
    then show ?thesis using Cons by simp
  next
    case False
    obtain a as where a: "split_on c xs = a # as"
      using split_on_nonempty [of c xs] by (cases "split_on c xs") auto
    show ?thesis using False Cons a by simp
  qed
qed

lemma split_on_nosep: "c \<notin> set s \<Longrightarrow> split_on c s = [s]"
  by (induction s) auto

lemma split_on_elems: "x \<in> set (split_on c s) \<Longrightarrow> c \<notin> set x"
proof (induction s arbitrary: x)
  case Nil
  then show ?case by simp
next
  case (Cons a s)
  show ?case
  proof (cases "a = c")
    case True
    then show ?thesis using Cons by auto
  next
    case False
    obtain y ys where y: "split_on c s = y # ys"
      using split_on_nonempty [of c s] by (cases "split_on c s") auto
    then have "x = a # y \<or> x \<in> set ys" using Cons.prems False by simp
    then show ?thesis using Cons.IH [of y] Cons.IH [of x] y False by auto
  qed
qed

lemma clean_elem_inv:
  "clean_inv out \<Longrightarrow> CHR ''/'' \<notin> set x \<Longrightarrow> clean_inv (clean_elem rooted out x)"
  by (auto simp: clean_inv_def clean_elem_def list_all_iff dest: in_set_butlastD)

lemma foldl_clean_inv:
  "clean_inv out \<Longrightarrow> \<forall>x \<in> set xs. CHR ''/'' \<notin> set x \<Longrightarrow> clean_inv (foldl (clean_elem rooted) out xs)"
  by (induction xs arbitrary: out) (simp_all add: clean_elem_inv)

lemma clean_inv_split: "clean_inv (foldl (clean_elem rooted) [] (split_on (CHR ''/'') p))"
  by (rule foldl_clean_inv) (auto simp: clean_inv_def dest: split_on_elems)

lemma clean_elem_plain: "plain_name k \<Longrightarrow> clean_elem rooted out k = out @ [k]"
  by (simp add: clean_elem_def plain_name_def)

lemma join_sep_snoc: "out \<noteq> [] \<Longrightarrow> join_sep (out @ [k]) = join_sep out @ CHR ''/'' # k"
  by (induction out rule: join_sep.induct) auto

lemma join_sep_length: "clean_inv out \<Longrightarrow> length out \<le> length (join_sep out)"
  by (induction out rule: join_sep.induct) (auto simp: clean_inv_def Suc_le_eq)

lemma join_sep_single:
  assumes "clean_inv out" and "join_sep out = [c]"
  shows "out = [[c]]"
proof (cases out)
  case Nil
  then show ?thesis using assms by simp
next
  case (Cons x xs)
  show ?thesis
  proof (cases xs)
    case Nil
    then show ?thesis using Cons assms by simp
  next
    case (Cons y ys)
    then have "x \<noteq> []" using assms(1) \<open>out = x # xs\<close> by (simp add: clean_inv_def)
    then have "2 \<le> length (join_sep out)" using Cons \<open>out = x # xs\<close> by (cases x) auto
    then show ?thesis using assms(2) by simp
  qed
qed

lemma render_snoc:
  assumes "clean_inv out" and "plain_name k"
  shows "render rooted (out @ [k]) = dir_entry (render rooted out) k"
proof (cases "out = []")
  case True
  then show ?thesis by (simp add: render_def dir_entry_def)
next
  case False
  have ne: "join_sep out \<noteq> []"
    using join_sep_length [OF assms(1)] False by (cases out) auto
  have nd: "join_sep out \<noteq> ''.''"
    using join_sep_single [OF assms(1), of "CHR ''.''"] assms(1) by (auto simp: clean_inv_def)
  have ns: "join_sep out \<noteq> ''/''"
    using join_sep_single [OF assms(1), of "CHR ''/''"] assms(1) by (auto simp: clean_inv_def)
  show ?thesis
    using False ne nd ns by (simp add: render_def dir_entry_def join_sep_snoc)
qed

lemma Clean_snoc:
  assumes "root \<noteq> []" and "plain_name k"
  shows "Clean (root @ CHR ''/'' # k) = dir_entry (Clean root) k"
proof -
  define rooted where "rooted = IsPathSeparator (hd root)"
  have h: "hd (root @ CHR ''/'' # k) = hd root" using assms(1) by simp
  have k: "split_on (CHR ''/'') k = [k]"
    using assms(2) by (simp add: split_on_nosep plain_name_def)
  have "foldl (clean_elem rooted) [] (split_on (CHR ''/'') (root @ CHR ''/'' # k)) =
        foldl (clean_elem rooted) [] (split_on (CHR ''/'') root) @ [k]"
    by (simp add: split_on_append k clean_elem_plain [OF assms(2)])
  then show ?thesis
    using assms(1) render_snoc [OF clean_inv_split [of rooted root] assms(2)]
    by (simp add: Clean_def h rooted_def Let_def)
qed

lemma Clean_plain: "plain_name k \<Longrightarrow> Clean k = k"
proof -
  assume p: "plain_name k"
  then have s: "split_on (CHR ''/'') k = [k]" by (simp add: split_on_nosep plain_name_def)
  have "\<not> IsPathSeparator (hd k)" using p by (cases k) (auto simp: plain_name_def IsPathSeparator_def)
  then show ?thesis using p
    by (simp add: Clean_def s clean_elem_plain render_def plain_name_def)
qed

lemma Join_plain: "plain_name k \<Longrightarrow> Join root k = dir_entry (Clean root) k"
proof (cases "root = []")
  case True
  assume "plain_name k"
  then show ?thesis using True Clean_plain [of k]
    by (simp add: Join_def dir_entry_def plain_name_def Clean_def)
next
  case False
  assume "plain_name k"
  then show ?thesis using False Clean_snoc [of root k] by (simp add: Join_def)
qed

lemma Join_uploads: "plain_name k \<Longrightarrow> Join ''./uploads'' k = ''uploads/'' @ k"
proof -
  assume "plain_name k"
  moreover have "Clean ''./uploads'' = ''uploads''"
    by (simp add: Clean_def IsPathSeparator_def clean_elem_def render_def)
  ultimately show ?thesis by (simp add: Join_plain dir_entry_def)
qed

section \<open>Generated names are plain names\<close>

lemma has_dotdot_count: "has_dotdot s \<Longrightarrow> 2 \<le> count_list s (CHR ''.'')"
  by (induction s rule: has_dotdot.induct) auto

lemma Ext_no_sep: "CHR ''/'' \<notin> set (Ext f)"
  using Ext_cases [of f] by auto

lemma Ext_dots: "count_list (Ext f) (CHR ''.'') \<le> 1"
  using Ext_cases [of f] by (auto simp: count_list_0_iff)

lemma fmt_d_no_sep: "CHR ''/'' \<notin> set (fmt_d i)"
  using fmt_d_chars [of "CHR ''/''" i] by auto

lemma fmt_d_no_dot: "CHR ''.'' \<notin> set (fmt_d i)"
  using fmt_d_chars [of "CHR ''.''" i] by auto

lemma newFileName_no_sep: "CHR ''/'' \<notin> set (newFileName now f)"
  by (simp add: newFileName_def fmt_d_no_sep Ext_no_sep)

lemma newFileName_dots: "count_list (newFileName now f) (CHR ''.'') \<le> 1"
  using Ext_dots [of f] fmt_d_no_dot [of "Time_Unix now"]
  by (simp add: newFileName_def count_list_0_iff)

lemma newFileName_no_dotdot: "\<not> has_dotdot (newFileName now f)"
  using has_dotdot_count [of "newFileName now f"] newFileName_dots [of now f] by auto

lemma newFileName_plain: "plain_name (newFileName now f)"
  using newFileName_no_sep [of now f] by (simp add: plain_name_def) (simp add: newFileName_def)

section \<open>The upload handler\<close>

lemmas status_defs = StatusOK_def StatusBadRequest_def StatusNotFound_def
  StatusMethodNotAllowed_def StatusInternalServerError_def

lemma fmt_d_decimal:
  "0 \<le> t \<Longrightarrow> list_all is_digit (fmt_d t) \<and> int (digits_val (fmt_d t)) = t"
  by (simp add: fmt_d_def digits_all_digit digits_val_digits)

lemma uploadHandler_ok:
  assumes "uploadHandler s e r = (Reply resp, es)" and "status resp = StatusOK"
  shows "\<exists>form file fh.
           ParseMultipartForm (10 * 2 ^ 20) e r = Inr form \<and>
           FormFile e form ''file'' = Some (file, fh) \<and>
           resp = \<lparr>status = StatusOK, header = Header_Set ''Content-Type'' ''text/html'' [],
                    body = UploadedPage (newFileName (now1 e) (Filename fh))
                             (downloadLink (newFileName (now1 e) (Filename fh)))\<rparr> \<and>
           es = [OsCreate (Join (storagePath s) (newFileName (now1 e) (Filename fh))),
                 IoCopy (Join (storagePath s) (newFileName (now1 e) (Filename fh))) file,
                 MapStore (newFileName (now1 e) (Filename fh)) (Time_Add (now2 e) expiryDuration),
                 AfterFunc expiryDuration (newFileName (now1 e) (Filename fh))]"
  using assms
  by (auto simp: uploadHandler_def http_Error_def status_defs Let_def
           split: if_splits sum.splits option.splits prod.splits)

lemma example_upload_run:
  "uploadHandler example_world example_env (example_upload ''report.pdf'' ''abc'') =
     (Reply \<lparr>status = 200, header = [(''Content-Type'', ''text/html'')],
             body = UploadedPage ''simplehost-1700000000.pdf''
                      ''/download?file=simplehost-1700000000.pdf''\<rparr>,
      [OsCreate ''uploads/simplehost-1700000000.pdf'',
       IoCopy ''uploads/simplehost-1700000000.pdf'' ''abc'',
       MapStore ''simplehost-1700000000.pdf''
         \<lparr>wall = 1700003600 * 1000000000 + 900, mono = 3600000005650\<rparr>,
       AfterFunc 3600000000000 ''simplehost-1700000000.pdf''])"
  by (simp add: uploadHandler_def example_world_def example_env_def example_upload_def
      NewServer_def ParseMultipartForm_def FormFile_def newFileName_def Time_Unix_def fmt_d_def
      digits.simps digit_char_def Ext_def IsPathSeparator_def Join_def Clean_def clean_elem_def
      render_def Header_Set_def Header_Del_def downloadLink_def Time_Add_def expiryDuration_def
      Minute_def status_defs Let_def)

lemma uploadHandler_not_ok:
  assumes "uploadHandler s e r = (rep, es)" and "\<not> succeeded rep"
  shows "es = [] \<or>
         (\<exists>form fl fh k.
            ParseMultipartForm (10 * 2 ^ 20) e r = Inr form \<and>
            FormFile e form ''file'' = Some (fl, fh) \<and> copy_stops e = Some k \<and>
            rep = Reply (http_Error [] ''Unable to save the file'' StatusInternalServerError) \<and>
            es = [OsCreate (Join (storagePath s) (newFileName (now1 e) (Filename fh))),
                  IoCopy (Join (storagePath s) (newFileName (now1 e) (Filename fh))) (take k fl)])"
  using assms
  by (auto simp: uploadHandler_def succeeded_def StatusOK_def Let_def
           split: if_splits sum.splits option.splits prod.splits)

lemma uploadHandler_succeeded:
  assumes "uploadHandler s e r = (rep, es)" and "succeeded rep"
  shows "\<exists>resp. rep = Reply resp \<and> status resp = StatusOK"
  using assms by (cases rep) (simp_all add: succeeded_def)

lemma example_upload_copy_stops:
  "uploadHandler example_world example_env_copy_stops (example_upload ''report.pdf'' ''abc'') =
     (Reply (http_Error [] ''Unable to save the file'' StatusInternalServerError),
      [OsCreate ''uploads/simplehost-1700000000.pdf'',
       IoCopy ''uploads/simplehost-1700000000.pdf'' ''a''])"
  by (simp add: uploadHandler_def example_world_def example_env_def example_env_copy_stops_def
      example_upload_def
      NewServer_def ParseMultipartForm_def FormFile_def newFileName_def Time_Unix_def fmt_d_def
      digits.simps digit_char_def Ext_def IsPathSeparator_def Join_def Clean_def clean_elem_def
      render_def Let_def)


section \<open>What the steps of the server preserve\<close>

lemma apply_effect_storagePath: "storagePath (apply_effect w x) = storagePath w"
  by (cases x) simp_all

lemma run_effects_storagePath: "storagePath (run_effects w es) = storagePath w"
  unfolding run_effects_def
  by (induction es arbitrary: w) (simp_all add: apply_effect_storagePath)

lemma apply_effect_files:
  "files (apply_effect w x) k = Some v \<Longrightarrow> files w k = Some v \<or> x = MapStore k v"
  by (cases x) (auto split: if_splits)

lemma run_effects_files:
  "files (run_effects w es) k = Some v \<Longrightarrow> files w k = Some v \<or> MapStore k v \<in> set es"
  unfolding run_effects_def
proof (induction es arbitrary: w)
  case Nil
  then show ?case by simp
next
  case (Cons x es)
  from Cons.prems have "files (foldl apply_effect (apply_effect w x) es) k = Some v" by simp
  from Cons.IH [OF this] show ?case using apply_effect_files [of w x k v] by auto
qed

lemma uploadHandler_MapStore:
  "MapStore n t \<in> set (snd (uploadHandler s e r)) \<Longrightarrow> \<exists>now f. n = newFileName now f"
  by (auto simp: uploadHandler_def Let_def split: if_splits sum.splits option.splits prod.splits)

lemma downloadHandler_MapStore: "MapStore n t \<notin> set (snd (downloadHandler D s e r))"
  by (auto simp: downloadHandler_def Let_def split: if_splits option.splits)

lemma ServeHTTP_MapStore:
  "MapStore n t \<in> set (snd (ServeHTTP D s e r)) \<Longrightarrow> \<exists>now f. n = newFileName now f"
  using uploadHandler_MapStore [of n t s e r] downloadHandler_MapStore [of n t D s e r]
  by (auto simp: ServeHTTP_def uploadPageHandler_def split: if_splits)

lemma deleteFile_MapStore: "MapStore n t \<notin> set (deleteFile s e k)"
  by (auto simp: deleteFile_def Let_def split: option.splits)

lemma do_step_files:
  assumes "files (do_step D w st) k = Some v"
  shows "files w k = Some v \<or> (\<exists>now f. k = newFileName now f)"
proof (cases st)
  case (Request e r)
  then have "files (run_effects w (snd (ServeHTTP D w e r))) k = Some v" using assms by simp
  from run_effects_files [OF this] show ?thesis using ServeHTTP_MapStore by blast
next
  case (Timer i e)
  show ?thesis
  proof (cases "i < length (timers w)")
    case True
    define w' where "w' = w\<lparr>timers := take i (timers w) @ drop (Suc i) (timers w)\<rparr>"
    have "files (run_effects w' (deleteFile w e (snd (timers w ! i)))) k = Some v"
      using assms Timer True by (simp add: w'_def)
    from run_effects_files [OF this] show ?thesis
      using deleteFile_MapStore by (auto simp: w'_def)
  next
    case False
    then show ?thesis using assms Timer by simp
  qed
qed

lemma do_step_storagePath: "storagePath (do_step D w st) = storagePath w"
  by (cases st) (simp_all add: run_effects_storagePath)

lemma run_snoc: "run D w (steps @ [st]) = do_step D (run D w steps) st"
  by (simp add: run_def)

lemma run_storagePath: "storagePath (run D w steps) = storagePath w"
  by (induction steps rule: rev_induct) (simp_all add: run_snoc do_step_storagePath, simp add: run_def)

lemma registry_keys_generated:
  "files (run D (NewServer root d) steps) k = Some v \<Longrightarrow> \<exists>now f. k = newFileName now f"
proof (induction steps arbitrary: v rule: rev_induct)
  case Nil
  then show ?case by (simp add: run_def NewServer_def)
next
  case (snoc st steps)
  from snoc.prems have "files (do_step D (run D (NewServer root d) steps) st) k = Some v"
    by (simp add: run_snoc)
  from do_step_files [OF this] show ?case using snoc.IH by blast
qed

lemma example_upload_step:
  "do_step D example_world (Request example_env (example_upload ''report.pdf'' ''abc'')) =
     example_uploaded"
proof -
  have "do_step D example_world (Request example_env (example_upload ''report.pdf'' ''abc'')) =
        run_effects example_world
          (snd (uploadHandler example_world example_env (example_upload ''report.pdf'' ''abc'')))"
    by (simp add: ServeHTTP_def example_upload_def)
  also have "\<dots> = example_uploaded"
    unfolding example_upload_run
    by (simp add: run_effects_def example_world_def NewServer_def example_uploaded_def)
  finally show ?thesis .
qed

lemma example_upload_runs:
  "run D example_world [Request example_env (example_upload ''report.pdf'' ''abc'')] =
     example_uploaded"
  using example_upload_step [of D] by (simp add: run_def)


lemma run_effects_Nil: "run_effects w [] = w"
  by (simp add: run_effects_def)

lemma ServeHTTP_upload_not_POST:
  assumes "Path r = ''/upload''" and "Method r \<noteq> ''POST''"
  shows "ServeHTTP D s e r =
           (if Method r = ''GET''
            then (Reply (http_Error [] (''Route Doesn'' @ [CHR 0x27] @ ''t Exist :/'') StatusNotFound), [])
            else (Reply \<lparr>status = StatusOK, header = [], body = NoBody\<rparr>, []))"
  using assms by (simp add: ServeHTTP_def)


section \<open>Two more uploads\<close>

lemmas upload_eval_defs = uploadHandler_def example_world_def example_env_def example_upload_def
  NewServer_def ParseMultipartForm_def FormFile_def newFileName_def Time_Unix_def fmt_d_def
  digits.simps digit_char_def Ext_def IsPathSeparator_def Join_def Clean_def clean_elem_def
  render_def Header_Set_def Header_Del_def downloadLink_def Time_Add_def expiryDuration_def
  Minute_def status_defs Let_def

lemma example_upload_cpp:
  "uploadHandler example_world example_env (example_upload ''notes.c++'' ''abc'') =
     (Reply \<lparr>status = 200, header = [(''Content-Type'', ''text/html'')],
             body = UploadedPage ''simplehost-1700000000.c++''
                      ''/download?file=simplehost-1700000000.c++''\<rparr>,
      [OsCreate ''uploads/simplehost-1700000000.c++'',
       IoCopy ''uploads/simplehost-1700000000.c++'' ''abc'',
       MapStore ''simplehost-1700000000.c++''
         \<lparr>wall = 1700003600 * 1000000000 + 900, mono = 3600000005650\<rparr>,
       AfterFunc 3600000000000 ''simplehost-1700000000.c++''])"
  by (simp add: upload_eval_defs)

lemma example_upload_cpp_step:
  "do_step D example_world (Request example_env (example_upload ''notes.c++'' ''abc'')) =
     example_uploaded_cpp"
proof -
  have "do_step D example_world (Request example_env (example_upload ''notes.c++'' ''abc'')) =
        run_effects example_world
          (snd (uploadHandler example_world example_env (example_upload ''notes.c++'' ''abc'')))"
    by (simp add: ServeHTTP_def example_upload_def)
  also have "\<dots> = example_uploaded_cpp"
    unfolding example_upload_cpp
    by (simp add: run_effects_def example_world_def NewServer_def example_uploaded_cpp_def)
  finally show ?thesis .
qed

lemma example_big_length: "length example_big = 10485761"
  by (simp add: example_big_def)

lemma example_upload_big:
  "uploadHandler example_world example_env (example_upload ''big.bin'' example_big) =
     (Reply \<lparr>status = 200, header = [(''Content-Type'', ''text/html'')],
             body = UploadedPage ''simplehost-1700000000.bin''
                      ''/download?file=simplehost-1700000000.bin''\<rparr>,
      [OsCreate ''uploads/simplehost-1700000000.bin'',
       IoCopy ''uploads/simplehost-1700000000.bin'' example_big,
       MapStore ''simplehost-1700000000.bin''
         \<lparr>wall = 1700003600 * 1000000000 + 900, mono = 3600000005650\<rparr>,
       AfterFunc 3600000000000 ''simplehost-1700000000.bin''])"
  by (simp add: upload_eval_defs example_big_length)


section \<open>The download handler\<close>

lemma downloadHandler_unregistered:
  assumes "Values_Get (ParseQuery (RawQuery r)) ''file'' = fileName" and "fileName \<noteq> []"
      and "files s fileName = None"
  shows "downloadHandler D s e r =
           (Reply (http_Error [] ''File not found or expired'' StatusNotFound), [])"
  using assms by (simp add: downloadHandler_def Let_def)

lemma downloadHandler_paths:
  assumes "OsOpen p \<in> set (snd (downloadHandler D s e r)) \<or>
           ServeFileOf p \<in> set (snd (downloadHandler D s e r))"
  shows "Values_Get (ParseQuery (RawQuery r)) ''file'' \<in> dom (files s) \<and>
         p = Join (storagePath s) (Values_Get (ParseQuery (RawQuery r)) ''file'')"
  using assms
  by (auto simp: downloadHandler_def Let_def split: if_splits option.splits)

lemma has_dotdot_nonempty: "has_dotdot s \<Longrightarrow> s \<noteq> []"
  by auto

lemmas query_defs = fetch_def Cut_def ParseQuery_def List.map_filter_simps parse_pair_def
  Values_Get_def

lemma example_uploaded_run:
  "example_uploaded = run example_detect (NewServer ''./uploads'' Map.empty)
       [Request example_env (example_upload ''report.pdf'' ''abc'')]"
  using example_upload_runs [of example_detect] by (simp add: example_world_def)

lemmas download_eval_defs = downloadHandler_def query_defs example_uploaded_def example_env_def
  Time_After_def Join_def Clean_def IsPathSeparator_def clean_elem_def render_def
  os_Open_def ServeFile_def containsDotDot_def HasSuffix_def conditional_def
  Header_Set_def Header_Del_def example_detect_def fmt_d_def
  digits.simps digit_char_def StatusOK_def Let_def

lemma example_download_run:
  "downloadHandler example_detect example_uploaded example_env
       (fetch ''/download?file=simplehost-1700000000.pdf'') =
     (Reply (example_reply ''abc''),
      [OsOpen ''uploads/simplehost-1700000000.pdf'',
       ServeFileOf ''uploads/simplehost-1700000000.pdf''])"
  by (simp add: download_eval_defs example_reply_def)

lemma downloadHandler_expired:
  assumes "Values_Get (ParseQuery (RawQuery r)) ''file'' = fileName" and "fileName \<noteq> []"
      and "files s fileName = Some expiresAt" and "Time_After (now1 e) expiresAt"
  shows "downloadHandler D s e r =
           (Reply (http_Error [] ''File not found or expired'' StatusNotFound), [])"
  using assms by (simp add: downloadHandler_def Let_def)

lemma downloadHandler_live:
  assumes "Values_Get (ParseQuery (RawQuery r)) ''file'' = fileName" and "fileName \<noteq> []"
      and "files s fileName = Some expiresAt" and "\<not> Time_After (now1 e) expiresAt"
  shows "downloadHandler D s e r =
           (case os_Open s e (Join (storagePath s) fileName) of
              None \<Rightarrow> (Reply (http_Error [] ''File not found'' StatusNotFound),
                       [OsOpen (Join (storagePath s) fileName)])
            | Some fl \<Rightarrow>
                if stat_fails e then (Panic, [OsOpen (Join (storagePath s) fileName)])
                else (ServeFile s e
                        (Header_Set ''Content-Length'' (fmt_d (int (length fl)))
                          (Header_Set ''Content-Type'' (D (replicate (length fl) (CHR 0x00)))
                            (Header_Set ''Content-Disposition''
                               (''attachment; filename='' @ [CHR 0x22] @ fileName @ [CHR 0x22]) [])))
                        r (Join (storagePath s) fileName),
                      [OsOpen (Join (storagePath s) fileName),
                       ServeFileOf (Join (storagePath s) fileName)]))"
  using assms by (simp add: downloadHandler_def Let_def split: option.split)

lemma http_Error_status: "status (http_Error h msg code) = code"
  by (simp add: http_Error_def)

lemma http_Error_body: "body (http_Error h msg code) = Text (msg @ newline)"
  by (simp add: http_Error_def)

lemma download_path_plain:
  "\<not> containsDotDot ''/download''" "\<not> HasSuffix ''/download'' ''/index.html''"
  by (simp_all add: containsDotDot_def HasSuffix_def)

text \<open>The answer of \<open>ServeFile\<close> to a request on \<open>/download\<close> when it serves the whole file.\<close>

lemma ServeFile_whole:
  assumes "Path r = ''/download''" and "\<not> conditional r \<or> serves_whole e"
      and "serve_fault e = None"
      and "disk s p = Some fl"
  shows "ServeFile s e h r p =
           Reply \<lparr>status = StatusOK,
                  header = Header_Set ''Content-Length'' (fmt_d (int (length fl)))
                             (Header_Set ''Accept-Ranges'' ''bytes''
                               (case modtime e of
                                  None \<Rightarrow> h
                                | Some t \<Rightarrow> Header_Set ''Last-Modified'' t h)),
                  body = (if Method r = ''HEAD'' then NoBody else FileBytes fl)\<rparr>"
  using assms by (auto simp: ServeFile_def download_path_plain)

text \<open>Status 200 comes from \<open>ServeFile\<close> only with the whole file found on disk.\<close>

lemma ServeFile_ok:
  assumes "ServeFile s e h r p = Reply resp" and "status resp = StatusOK"
  shows "\<exists>fl. disk s p = Some fl \<and>
           resp = \<lparr>status = StatusOK,
                    header = Header_Set ''Content-Length'' (fmt_d (int (length fl)))
                               (Header_Set ''Accept-Ranges'' ''bytes''
                                 (case modtime e of
                                    None \<Rightarrow> h
                                  | Some t \<Rightarrow> Header_Set ''Last-Modified'' t h)),
                    body = (if Method r = ''HEAD'' then NoBody else FileBytes fl)\<rparr>"
  using assms
  by (auto simp: ServeFile_def http_Error_def toHTTPError_def StatusOK_def StatusNotFound_def
        StatusBadRequest_def StatusMovedPermanently_def StatusForbidden_def
        StatusInternalServerError_def
      split: if_splits option.splits serve_error.splits)

lemma map_of_Header_Del: "k' \<noteq> k \<Longrightarrow> map_of (Header_Del k h) k' = map_of h k'"
  by (induction h) (auto simp: Header_Del_def)

lemma map_of_Header_Del_same: "map_of (Header_Del k h) k = None"
  by (induction h) (auto simp: Header_Del_def)

lemma map_of_Header_Set:
  "map_of (Header_Set k v h) k' = (if k' = k then Some v else map_of h k')"
proof (cases "k' = k")
  case True
  then show ?thesis by (simp add: Header_Set_def map_add_def map_of_Header_Del_same)
next
  case False
  then have "map_of (Header_Del k h @ [(k, v)]) k' = map_of (Header_Del k h) k'"
    by (simp add: map_add_def split: option.split)
  then show ?thesis using False by (simp add: Header_Set_def map_of_Header_Del)
qed

lemma downloadHandler_ok:
  assumes "downloadHandler D s e r = (Reply resp, es)" and "status resp = StatusOK"
  shows "\<exists>fileName fl.
           fileName = Values_Get (ParseQuery (RawQuery r)) ''file'' \<and>
           disk s (Join (storagePath s) fileName) = Some fl \<and>
           resp = \<lparr>status = StatusOK,
                    header = Header_Set ''Content-Length'' (fmt_d (int (length fl)))
                               (Header_Set ''Accept-Ranges'' ''bytes''
                                 (case modtime e of
                                    None \<Rightarrow>
                                      Header_Set ''Content-Length'' (fmt_d (int (length fl)))
                                        (Header_Set ''Content-Type'' (D (replicate (length fl) (CHR 0x00)))
                                          (Header_Set ''Content-Disposition''
                                             (''attachment; filename='' @ [CHR 0x22] @ fileName @ [CHR 0x22]) []))
                                  | Some t \<Rightarrow>
                                      Header_Set ''Last-Modified'' t
                                        (Header_Set ''Content-Length'' (fmt_d (int (length fl)))
                                          (Header_Set ''Content-Type'' (D (replicate (length fl) (CHR 0x00)))
                                            (Header_Set ''Content-Disposition''
                                               (''attachment; filename='' @ [CHR 0x22] @ fileName @ [CHR 0x22]) []))))),
                    body = (if Method r = ''HEAD'' then NoBody else FileBytes fl)\<rparr> \<and>
           es = [OsOpen (Join (storagePath s) fileName), ServeFileOf (Join (storagePath s) fileName)]"
proof -
  define fileName where "fileName = Values_Get (ParseQuery (RawQuery r)) ''file''"
  define p where "p = Join (storagePath s) fileName"
  have ne: "fileName \<noteq> []"
    using assms by (auto simp: downloadHandler_def fileName_def Let_def http_Error_def StatusOK_def
        StatusBadRequest_def split: if_splits)
  obtain expiresAt where f: "files s fileName = Some expiresAt" "\<not> Time_After (now1 e) expiresAt"
    using assms ne
    by (auto simp: downloadHandler_def fileName_def Let_def http_Error_def StatusOK_def
        StatusNotFound_def split: if_splits option.splits)
  note live = downloadHandler_live [OF fileName_def [symmetric] ne f, of D]
  from assms(1) live obtain fl where
    o: "os_Open s e p = Some fl" "\<not> stat_fails e"
    and sf: "ServeFile s e
                (Header_Set ''Content-Length'' (fmt_d (int (length fl)))
                  (Header_Set ''Content-Type'' (D (replicate (length fl) (CHR 0x00)))
                    (Header_Set ''Content-Disposition''
                       (''attachment; filename='' @ [CHR 0x22] @ fileName @ [CHR 0x22]) [])))
                r p = Reply resp"
    and es: "es = [OsOpen p, ServeFileOf p]"
    using assms(2)
    by (auto simp: p_def http_Error_def StatusOK_def StatusNotFound_def
        split: option.splits if_splits)
  from ServeFile_ok [OF sf assms(2)] obtain fl' where
    d: "disk s p = Some fl'" and
    r: "resp = \<lparr>status = StatusOK,
                    header = Header_Set ''Content-Length'' (fmt_d (int (length fl')))
                               (Header_Set ''Accept-Ranges'' ''bytes''
                                 (case modtime e of
                                    None \<Rightarrow>
                                      Header_Set ''Content-Length'' (fmt_d (int (length fl)))
                                        (Header_Set ''Content-Type'' (D (replicate (length fl) (CHR 0x00)))
                                          (Header_Set ''Content-Disposition''
                                             (''attachment; filename='' @ [CHR 0x22] @ fileName @ [CHR 0x22]) []))
                                  | Some t \<Rightarrow>
                                      Header_Set ''Last-Modified'' t
                                        (Header_Set ''Content-Length'' (fmt_d (int (length fl)))
                                          (Header_Set ''Content-Type'' (D (replicate (length fl) (CHR 0x00)))
                                            (Header_Set ''Content-Disposition''
                                               (''attachment; filename='' @ [CHR 0x22] @ fileName @ [CHR 0x22]) []))))),
                    body = (if Method r = ''HEAD'' then NoBody else FileBytes fl')\<rparr>"
    by blast
  from o(1) d have "fl' = fl" by (auto simp: os_Open_def split: if_splits)
  with d r es show ?thesis unfolding p_def fileName_def by blast
qed

lemma download_headers_Content_Type:
  "map_of (Header_Set ''Content-Length'' cl
            (Header_Set ''Accept-Ranges'' ar
              (case m of
                 None \<Rightarrow> Header_Set ''Content-Length'' cl'
                           (Header_Set ''Content-Type'' ct (Header_Set ''Content-Disposition'' cd []))
               | Some t \<Rightarrow> Header_Set ''Last-Modified'' t
                           (Header_Set ''Content-Length'' cl'
                             (Header_Set ''Content-Type'' ct (Header_Set ''Content-Disposition'' cd []))))))
     ''Content-Type'' = Some ct"
  by (cases m) (simp_all add: map_of_Header_Set)

lemma example_download_abc:
  "downloadHandler example_detect example_uploaded example_env
       (fetch ''/download?file=simplehost-1700000000.pdf'') =
     (Reply (example_reply ''abc''),
      [OsOpen ''uploads/simplehost-1700000000.pdf'',
       ServeFileOf ''uploads/simplehost-1700000000.pdf''])"
  by (rule example_download_run)

lemma example_download_pdf:
  "downloadHandler example_detect example_uploaded_pdf example_env
       (fetch ''/download?file=simplehost-1700000000.pdf'') =
     (Reply (example_reply ''%PD''),
      [OsOpen ''uploads/simplehost-1700000000.pdf'',
       ServeFileOf ''uploads/simplehost-1700000000.pdf''])"
  by (simp add: download_eval_defs example_uploaded_pdf_def example_reply_def)

lemma example_download_head:
  "downloadHandler example_detect example_uploaded example_env example_head =
     (Reply ((example_reply ''abc'')\<lparr>body := NoBody\<rparr>),
      [OsOpen ''uploads/simplehost-1700000000.pdf'',
       ServeFileOf ''uploads/simplehost-1700000000.pdf''])"
  by (simp add: download_eval_defs example_head_def example_reply_def)

section \<open>Upload, then download\<close>

lemma ReadForm_one_file:
  assumes "FormName p \<noteq> []" and "FileName p \<noteq> []" and "int (length (data p)) > maxMemory \<longrightarrow> \<not> tmp_bad"
  shows "\<exists>t. ReadForm tmp_bad maxMemory maxValueBytes [p] \<lparr>Value = [], File = []\<rparr> =
           Inr \<lparr>Value = [], File = [(FormName p, \<lparr>Filename = FileName p, content = data p, tmpfile = t\<rparr>)]\<rparr>"
  using assms by (auto simp: Let_def)

lemma uploadHandler_any_size:
  assumes "\<not> tmp_fails e" and "\<not> part_open_fails e" and "\<not> create_fails e" and "copy_stops e = None"
      and "f \<noteq> []"
  shows "uploadHandler s e (example_upload f d) =
     (Reply \<lparr>status = StatusOK, header = Header_Set ''Content-Type'' ''text/html'' [],
             body = UploadedPage (newFileName (now1 e) f) (downloadLink (newFileName (now1 e) f))\<rparr>,
      [OsCreate (Join (storagePath s) (newFileName (now1 e) f)),
       IoCopy (Join (storagePath s) (newFileName (now1 e) f)) d,
       MapStore (newFileName (now1 e) f) (Time_Add (now2 e) expiryDuration),
       AfterFunc expiryDuration (newFileName (now1 e) f)])"
proof -
  define p where "p = \<lparr>FormName = ''file'', FileName = f, data = d\<rparr>"
  have "\<exists>t. ReadForm (tmp_fails e) (10 * 2 ^ 20) (10 * 2 ^ 20 + 10 * 2 ^ 20) [p] \<lparr>Value = [], File = []\<rparr> =
           Inr \<lparr>Value = [], File = [(FormName p, \<lparr>Filename = FileName p, content = data p, tmpfile = t\<rparr>)]\<rparr>"
    by (rule ReadForm_one_file) (simp_all add: p_def assms)
  then obtain t where
    "ParseMultipartForm (10 * 2 ^ 20) e (example_upload f d) =
       Inr \<lparr>Value = [], File = [(''file'', \<lparr>Filename = f, content = d, tmpfile = t\<rparr>)]\<rparr>"
    by (auto simp: ParseMultipartForm_def example_upload_def p_def)
  then show ?thesis
    using assms by (simp add: uploadHandler_def FormFile_def example_upload_def Let_def)
qed

lemma newFileName_nonempty: "newFileName now f \<noteq> []"
  by (simp add: newFileName_def)

lemma upload_download_by_name:
  assumes up: "uploadHandler s e r = (Reply resp, es)" and ok: "status resp = StatusOK"
      and q: "Values_Get (ParseQuery (RawQuery r')) ''file'' = name"
      and pg: "body resp = UploadedPage name link"
      and t: "\<not> Time_After (now1 e') (Time_Add (now2 e) expiryDuration)"
      and env: "\<not> open_fails e'" "\<not> stat_fails e'" "serve_fault e' = None"
      and req: "Path r' = ''/download''" "\<not> conditional r'" "Method r' \<noteq> ''HEAD''"
  shows "\<exists>form fl fh h.
           ParseMultipartForm (10 * 2 ^ 20) e r = Inr form \<and>
           FormFile e form ''file'' = Some (fl, fh) \<and>
           fst (downloadHandler D (run_effects s es) e' r') =
             Reply \<lparr>status = StatusOK, header = h, body = FileBytes fl\<rparr>"
proof -
  from uploadHandler_ok [OF up ok] obtain form fl fh where
    h: "ParseMultipartForm (10 * 2 ^ 20) e r = Inr form" "FormFile e form ''file'' = Some (fl, fh)"
       "resp = \<lparr>status = StatusOK, header = Header_Set ''Content-Type'' ''text/html'' [],
                    body = UploadedPage (newFileName (now1 e) (Filename fh))
                             (downloadLink (newFileName (now1 e) (Filename fh)))\<rparr>"
       "es = [OsCreate (Join (storagePath s) (newFileName (now1 e) (Filename fh))),
                 IoCopy (Join (storagePath s) (newFileName (now1 e) (Filename fh))) fl,
                 MapStore (newFileName (now1 e) (Filename fh)) (Time_Add (now2 e) expiryDuration),
                 AfterFunc expiryDuration (newFileName (now1 e) (Filename fh))]"
    by blast
  from h(3) pg have n: "name = newFileName (now1 e) (Filename fh)" by simp
  define w where "w = run_effects s es"
  have ne: "name \<noteq> []" unfolding n by (rule newFileName_nonempty)
  have sp: "storagePath w = storagePath s" by (simp add: w_def run_effects_storagePath)
  have f: "files w name = Some (Time_Add (now2 e) expiryDuration)"
    by (simp add: w_def h(4) n run_effects_def)
  have d: "disk w (Join (storagePath w) name) = Some fl"
    by (simp add: w_def h(4) n run_effects_def)
  have "\<exists>h. fst (downloadHandler D w e' r') =
      Reply \<lparr>status = StatusOK, header = h, body = FileBytes fl\<rparr>"
    unfolding downloadHandler_live [OF q ne f t]
    using d env req by (simp add: os_Open_def ServeFile_whole)
  with h(1,2) show ?thesis unfolding w_def by blast
qed

lemma QueryUnescape_safe: "\<forall>c \<in> set s. query_safe c \<Longrightarrow> QueryUnescape s = Some s"
  by (induction s) (auto simp: query_safe_def)

lemma fetch_downloadLink:
  assumes "\<forall>c \<in> set name. query_safe c"
  shows "Path (fetch (downloadLink name)) = ''/download'' \<and>
         Values_Get (ParseQuery (RawQuery (fetch (downloadLink name)))) ''file'' = name"
proof -
  have r: "RawQuery (fetch (downloadLink name)) = ''file='' @ name"
    and p: "Path (fetch (downloadLink name)) = ''/download''"
    by (simp_all add: fetch_def downloadLink_def Cut_def)
  have "CHR ''&'' \<notin> set (''file='' @ name)" using assms by (auto simp: query_safe_def)
  then have s: "split_on (CHR ''&'') (''file='' @ name) = [''file='' @ name]"
    by (rule split_on_nosep)
  have semi: "CHR '';'' \<notin> set name" using assms by (auto simp: query_safe_def)
  have "parse_pair (''file='' @ name) = Some (''file'', name)"
    using semi QueryUnescape_safe [OF assms]
    by (simp add: parse_pair_def Cut_def)
  then show ?thesis
    unfolding r s ParseQuery_def by (simp add: p List.map_filter_simps Values_Get_def)
qed

section \<open>The expiry action\<close>

lemma uploadHandler_reads:
  "storagePath s' = storagePath s \<Longrightarrow> uploadHandler s' e r = uploadHandler s e r"
  by (simp add: uploadHandler_def Let_def cong: sum.case_cong option.case_cong if_cong)

lemma downloadHandler_reads:
  "storagePath s' = storagePath s \<Longrightarrow> files s' = files s \<Longrightarrow> disk s' = disk s \<Longrightarrow>
   downloadHandler D s' e r = downloadHandler D s e r"
  by (simp add: downloadHandler_def os_Open_def ServeFile_def Let_def
        cong: option.case_cong if_cong)

lemma ServeHTTP_reads:
  "storagePath s' = storagePath s \<Longrightarrow> files s' = files s \<Longrightarrow> disk s' = disk s \<Longrightarrow>
   ServeHTTP D s' e r = ServeHTTP D s e r"
  by (simp add: ServeHTTP_def uploadHandler_reads [of s' s] downloadHandler_reads [of s' s])

lemma deleteFile_fails:
  assumes "os_Remove s e (Join (storagePath s) fileName) = Some err"
  shows "deleteFile s e fileName = [Printf (''Error deleting file: '' @ err @ newline)]"
  using assms by (simp add: deleteFile_def Let_def)

lemma deleteFile_removes:
  assumes "os_Remove s e (Join (storagePath s) fileName) = None"
  shows "deleteFile s e fileName =
           [OsRemove (Join (storagePath s) fileName), MapDelete fileName,
            Printf (''File deleted: '' @ fileName @ newline)]"
  using assms by (simp add: deleteFile_def Let_def)

lemma os_Remove_fails_iff:
  "os_Remove s e p \<noteq> None \<longleftrightarrow> disk s p = None \<or> remove_fault e \<noteq> None"
  by (simp add: os_Remove_def split: option.splits)


section \<open>The claims\<close>

text \<open>
  Claim C5. An upload accepted at Unix time \<open>t\<close> with original file name \<open>f\<close> is stored
  under the name \<open>simplehost-\<close>, the decimal digits of \<open>t\<close>, the extension of \<open>f\<close>: this
  one name is in the page, in the link, in the path of the file written and in the
  registry. The extension of \<open>f\<close> is empty, or it is the last dot of \<open>f\<close> with what follows
  it, free of dots and separators; and the new name has the same extension as \<open>f\<close>.
\<close>

theorem upload_name_format:
  assumes "uploadHandler s e r = (Reply resp, es)" and "status resp = StatusOK"
  shows "\<exists>form file fh name.
           ParseMultipartForm (10 * 2 ^ 20) e r = Inr form \<and>
           FormFile e form ''file'' = Some (file, fh) \<and>
           name = ''simplehost-'' @ fmt_d (Time_Unix (now1 e)) @ Ext (Filename fh) \<and>
           body resp = UploadedPage name (''/download?file='' @ name) \<and>
           es = [OsCreate (Join (storagePath s) name), IoCopy (Join (storagePath s) name) file,
                 MapStore name (Time_Add (now2 e) (60 * Minute)), AfterFunc (60 * Minute) name] \<and>
           Ext name = Ext (Filename fh) \<and>
           (Ext (Filename fh) = [] \<or>
            (\<exists>pre x. Filename fh = pre @ CHR ''.'' # x \<and> Ext (Filename fh) = CHR ''.'' # x \<and>
                     CHR ''.'' \<notin> set x \<and> CHR ''/'' \<notin> set x)) \<and>
           (0 \<le> Time_Unix (now1 e) \<longrightarrow>
              list_all is_digit (fmt_d (Time_Unix (now1 e))) \<and>
              int (digits_val (fmt_d (Time_Unix (now1 e)))) = Time_Unix (now1 e))"
proof -
  from uploadHandler_ok [OF assms] obtain form fl fh where
    h: "ParseMultipartForm (10 * 2 ^ 20) e r = Inr form" "FormFile e form ''file'' = Some (fl, fh)"
       "resp = \<lparr>status = StatusOK, header = Header_Set ''Content-Type'' ''text/html'' [],
                    body = UploadedPage (newFileName (now1 e) (Filename fh))
                             (downloadLink (newFileName (now1 e) (Filename fh)))\<rparr>"
       "es = [OsCreate (Join (storagePath s) (newFileName (now1 e) (Filename fh))),
                 IoCopy (Join (storagePath s) (newFileName (now1 e) (Filename fh))) fl,
                 MapStore (newFileName (now1 e) (Filename fh)) (Time_Add (now2 e) expiryDuration),
                 AfterFunc expiryDuration (newFileName (now1 e) (Filename fh))]"
    by blast
  define name where "name = newFileName (now1 e) (Filename fh)"
  have n: "name = ''simplehost-'' @ fmt_d (Time_Unix (now1 e)) @ Ext (Filename fh)"
    by (simp add: name_def newFileName_def)
  have b: "body resp = UploadedPage name (''/download?file='' @ name)"
    using h(3) by (simp add: name_def downloadLink_def)
  have es: "es = [OsCreate (Join (storagePath s) name), IoCopy (Join (storagePath s) name) fl,
                 MapStore name (Time_Add (now2 e) (60 * Minute)), AfterFunc (60 * Minute) name]"
    using h(4) by (simp add: name_def expiryDuration_def)
  have x: "Ext name = Ext (Filename fh)" unfolding name_def by (rule Ext_newFileName)
  note c = Ext_cases [of "Filename fh"]
  have d: "0 \<le> Time_Unix (now1 e) \<longrightarrow>
              list_all is_digit (fmt_d (Time_Unix (now1 e))) \<and>
              int (digits_val (fmt_d (Time_Unix (now1 e)))) = Time_Unix (now1 e)"
    using fmt_d_decimal by blast
  from h(1,2) n b es x c d show ?thesis by blast
qed

theorem upload_name_format_witness:
  "uploadHandler example_world example_env (example_upload ''report.pdf'' ''abc'') =
     (Reply \<lparr>status = 200, header = [(''Content-Type'', ''text/html'')],
             body = UploadedPage ''simplehost-1700000000.pdf''
                      ''/download?file=simplehost-1700000000.pdf''\<rparr>,
      [OsCreate ''uploads/simplehost-1700000000.pdf'',
       IoCopy ''uploads/simplehost-1700000000.pdf'' ''abc'',
       MapStore ''simplehost-1700000000.pdf''
         \<lparr>wall = 1700003600 * 1000000000 + 900, mono = 3600000005650\<rparr>,
       AfterFunc 3600000000000 ''simplehost-1700000000.pdf'']) \<and>
   (\<exists>form fl fh name.
      ParseMultipartForm (10 * 2 ^ 20) example_env (example_upload ''report.pdf'' ''abc'') = Inr form \<and>
      FormFile example_env form ''file'' = Some (fl, fh) \<and>
      name = ''simplehost-'' @ fmt_d (Time_Unix (now1 example_env)) @ Ext (Filename fh) \<and>
      name = ''simplehost-1700000000.pdf'' \<and>
      Ext name = Ext (Filename fh))"
proof -
  note run = example_upload_run
  have ok: "status \<lparr>status = 200, header = [(''Content-Type'', ''text/html'')],
             body = UploadedPage ''simplehost-1700000000.pdf''
                      ''/download?file=simplehost-1700000000.pdf''\<rparr> = StatusOK"
    by (simp add: StatusOK_def)
  from upload_name_format [OF run ok] obtain form fl fh name where
    h: "ParseMultipartForm (10 * 2 ^ 20) example_env (example_upload ''report.pdf'' ''abc'') = Inr form"
       "FormFile example_env form ''file'' = Some (fl, fh)"
       "name = ''simplehost-'' @ fmt_d (Time_Unix (now1 example_env)) @ Ext (Filename fh)"
       "body \<lparr>status = 200, header = [(''Content-Type'', ''text/html'')],
             body = UploadedPage ''simplehost-1700000000.pdf''
                      ''/download?file=simplehost-1700000000.pdf''\<rparr> =
          UploadedPage name (''/download?file='' @ name)"
       "Ext name = Ext (Filename fh)"
    by blast
  from h(4) have "name = ''simplehost-1700000000.pdf''" by simp
  with h(1,2,3,5) run show ?thesis by blast
qed

text \<open>
  Claim C9. Whatever requests and timers the server has handled since it was started,
  every key of its registry is \<open>simplehost-\<close>, a number in decimal, and an extension that
  is empty or a dot followed by bytes other than dots and separators. So a key has no
  separator and no two dots in a row, it is a single path element other than \<open>.\<close> and
  \<open>..\<close>, and joining the storage path with it names the entry of that name directly
  inside the cleaned storage path.
\<close>

theorem registry_keys_inside_root:
  assumes "key \<in> dom (files (run D (NewServer root d) steps))"
  shows "(\<exists>t x. key = ''simplehost-'' @ fmt_d t @ x \<and>
            (x = [] \<or> (\<exists>y. x = CHR ''.'' # y \<and> CHR ''.'' \<notin> set y \<and> CHR ''/'' \<notin> set y))) \<and>
         CHR ''/'' \<notin> set key \<and> \<not> has_dotdot key \<and> plain_name key \<and>
         Join (storagePath (run D (NewServer root d) steps)) key = dir_entry (Clean root) key"
proof -
  from assms obtain v where "files (run D (NewServer root d) steps) key = Some v" by auto
  from registry_keys_generated [OF this] obtain now f where k: "key = newFileName now f" by blast
  have shape: "\<exists>t x. key = ''simplehost-'' @ fmt_d t @ x \<and>
            (x = [] \<or> (\<exists>y. x = CHR ''.'' # y \<and> CHR ''.'' \<notin> set y \<and> CHR ''/'' \<notin> set y))"
  proof -
    have "key = ''simplehost-'' @ fmt_d (Time_Unix now) @ Ext f" by (simp add: k newFileName_def)
    moreover have "Ext f = [] \<or> (\<exists>y. Ext f = CHR ''.'' # y \<and> CHR ''.'' \<notin> set y \<and> CHR ''/'' \<notin> set y)"
      using Ext_cases [of f] by blast
    ultimately show ?thesis by blast
  qed
  have sp: "storagePath (run D (NewServer root d) steps) = root"
    by (simp add: run_storagePath NewServer_def)
  have pl: "plain_name key" unfolding k by (rule newFileName_plain)
  have j: "Join (storagePath (run D (NewServer root d) steps)) key = dir_entry (Clean root) key"
    unfolding sp by (rule Join_plain [OF pl])
  have ns: "CHR ''/'' \<notin> set key" unfolding k by (rule newFileName_no_sep)
  have nd: "\<not> has_dotdot key" unfolding k by (rule newFileName_no_dotdot)
  from shape ns nd pl j show ?thesis by (intro conjI)
qed

theorem registry_keys_inside_root_witness:
  "''simplehost-1700000000.pdf'' \<in> dom (files (run example_detect (NewServer ''./uploads'' Map.empty)
       [Request example_env (example_upload ''report.pdf'' ''abc'')])) \<and>
   plain_name ''simplehost-1700000000.pdf'' \<and>
   Join (storagePath (run example_detect (NewServer ''./uploads'' Map.empty)
       [Request example_env (example_upload ''report.pdf'' ''abc'')])) ''simplehost-1700000000.pdf'' =
     ''uploads/simplehost-1700000000.pdf''"
proof -
  have r: "run example_detect (NewServer ''./uploads'' Map.empty)
       [Request example_env (example_upload ''report.pdf'' ''abc'')] = example_uploaded"
    using example_upload_runs [of example_detect] by (simp add: example_world_def)
  have m: "''simplehost-1700000000.pdf'' \<in> dom (files (run example_detect (NewServer ''./uploads'' Map.empty)
       [Request example_env (example_upload ''report.pdf'' ''abc'')]))"
    unfolding r by (simp add: example_uploaded_def)
  have c: "dir_entry (Clean ''./uploads'') ''simplehost-1700000000.pdf'' = ''uploads/simplehost-1700000000.pdf''"
    by (simp add: dir_entry_def Clean_def IsPathSeparator_def clean_elem_def render_def)
  from registry_keys_inside_root [OF m] m c show ?thesis by simp
qed

text \<open>
  Claim C3. On a server that has handled any requests and timers since its start, a
  download whose \<open>file\<close> parameter holds a separator or two dots in a row is answered
  404 by the registry check, with no effect at all: no path is built and nothing is
  opened. Whenever a download does open or serve a path, the parameter is a single path
  element other than \<open>.\<close> and \<open>..\<close>, and the path is the entry of that name directly
  inside the cleaned storage path.
\<close>

theorem download_never_leaves_root:
  assumes "w = run D (NewServer root d) steps"
      and "fileName = Values_Get (ParseQuery (RawQuery r)) ''file''"
  shows "(CHR ''/'' \<in> set fileName \<or> has_dotdot fileName \<longrightarrow>
            downloadHandler D w e r =
              (Reply (http_Error [] ''File not found or expired'' StatusNotFound), [])) \<and>
         (\<forall>p. OsOpen p \<in> set (snd (downloadHandler D w e r)) \<or>
              ServeFileOf p \<in> set (snd (downloadHandler D w e r)) \<longrightarrow>
              plain_name fileName \<and> p = dir_entry (Clean root) fileName)"
proof -
  have sp: "storagePath w = root" by (simp add: assms(1) run_storagePath NewServer_def)
  have gen: "\<exists>now f. fileName = newFileName now f" if "files w fileName = Some v" for v
    using registry_keys_generated [of D root d steps fileName v] assms(1) that by auto
  have first: "downloadHandler D w e r =
      (Reply (http_Error [] ''File not found or expired'' StatusNotFound), [])"
    if bad: "CHR ''/'' \<in> set fileName \<or> has_dotdot fileName"
  proof -
    from bad have ne: "fileName \<noteq> []" by auto
    have "files w fileName = None"
    proof (cases "files w fileName")
      case None
      then show ?thesis .
    next
      case (Some v)
      from gen [OF this] obtain now f where "fileName = newFileName now f" by blast
      then show ?thesis
        using bad newFileName_no_sep [of now f] newFileName_no_dotdot [of now f] by auto
    qed
    then show ?thesis
      using downloadHandler_unregistered [of r fileName w D e] assms(2) ne by simp
  qed
  have second: "plain_name fileName \<and> p = dir_entry (Clean root) fileName"
    if op: "OsOpen p \<in> set (snd (downloadHandler D w e r)) \<or>
            ServeFileOf p \<in> set (snd (downloadHandler D w e r))" for p
  proof -
    from downloadHandler_paths [OF op]
    have k: "fileName \<in> dom (files w)" and p: "p = Join (storagePath w) fileName"
      using assms(2) by simp_all
    from k obtain v where "files w fileName = Some v" by auto
    from gen [OF this] obtain now f where "fileName = newFileName now f" by blast
    then have pl: "plain_name fileName" by (simp add: newFileName_plain)
    have "p = dir_entry (Clean root) fileName" using p sp Join_plain [OF pl] by simp
    then show ?thesis using pl by simp
  qed
  from first second show ?thesis by blast
qed

theorem download_never_leaves_root_witness:
  "CHR ''/'' \<in> set ''../secret'' \<and>
   downloadHandler example_detect example_uploaded example_env (fetch ''/download?file=../secret'') =
     (Reply (http_Error [] ''File not found or expired'' StatusNotFound), []) \<and>
   OsOpen ''uploads/simplehost-1700000000.pdf'' \<in>
     set (snd (downloadHandler example_detect example_uploaded example_env
       (fetch ''/download?file=simplehost-1700000000.pdf''))) \<and>
   ''uploads/simplehost-1700000000.pdf'' =
     dir_entry (Clean ''./uploads'') ''simplehost-1700000000.pdf''"
proof -
  have q: "''../secret'' = Values_Get (ParseQuery (RawQuery (fetch ''/download?file=../secret''))) ''file''"
    by (simp add: query_defs)
  have q': "''simplehost-1700000000.pdf'' =
      Values_Get (ParseQuery (RawQuery (fetch ''/download?file=simplehost-1700000000.pdf''))) ''file''"
    by (simp add: query_defs)
  have bad: "CHR ''/'' \<in> set ''../secret''" by simp
  have op: "OsOpen ''uploads/simplehost-1700000000.pdf'' \<in>
     set (snd (downloadHandler example_detect example_uploaded example_env
       (fetch ''/download?file=simplehost-1700000000.pdf'')))"
    by (simp add: example_download_run)
  from download_never_leaves_root [OF example_uploaded_run q, of example_env] bad
  have a: "downloadHandler example_detect example_uploaded example_env (fetch ''/download?file=../secret'') =
     (Reply (http_Error [] ''File not found or expired'' StatusNotFound), [])" by blast
  from download_never_leaves_root [OF example_uploaded_run q', of example_env] op
  have b: "''uploads/simplehost-1700000000.pdf'' =
     dir_entry (Clean ''./uploads'') ''simplehost-1700000000.pdf''" by blast
  from bad a op b show ?thesis by (intro conjI)
qed

text \<open>
  Claim C2, as the code has it. \<open>downloadHandler\<close> tests \<open>time.Now().After(expiryTime)\<close>,
  which is strict. A download of a registered name at a time after its expiry is
  answered 404 by the registry check, whatever is on disk. A download at a time not after
  the expiry, the very instant of the expiry included, passes the registry check: the
  file is opened. It is then answered with status 200 when the file is on disk, the
  system lets it be opened and served, and the request, on \<open>/download\<close>, carries no
  condition and no range (or \<open>ServeFile\<close> serves the whole file all the same); the body
  is the file, and for the method HEAD no body is written. The instant of the expiry is the counterexample to the claim as stated: there
  the file is served.
\<close>

theorem download_expiry_check:
  assumes "fileName = Values_Get (ParseQuery (RawQuery r)) ''file''" and "fileName \<noteq> []"
      and "files s fileName = Some expiresAt"
  shows "(Time_After (now1 e) expiresAt \<longleftrightarrow> mono expiresAt < mono (now1 e)) \<and>
         (Time_After (now1 e) expiresAt \<longrightarrow>
            downloadHandler D s e r =
              (Reply (http_Error [] ''File not found or expired'' StatusNotFound), [])) \<and>
         (\<not> Time_After (now1 e) expiresAt \<longrightarrow>
            fst (downloadHandler D s e r) \<noteq>
              Reply (http_Error [] ''File not found or expired'' StatusNotFound) \<and>
            OsOpen (Join (storagePath s) fileName) \<in> set (snd (downloadHandler D s e r))) \<and>
         (\<not> Time_After (now1 e) expiresAt \<and> disk s (Join (storagePath s) fileName) = Some fl \<and>
          \<not> open_fails e \<and> \<not> stat_fails e \<and> serve_fault e = None \<and>
          Path r = ''/download'' \<and> (\<not> conditional r \<or> serves_whole e) \<longrightarrow>
            (\<exists>h. fst (downloadHandler D s e r) =
                   Reply \<lparr>status = StatusOK, header = h,
                          body = (if Method r = ''HEAD'' then NoBody else FileBytes fl)\<rparr>))"
proof -
  note q = assms(1) [symmetric]
  have a: "Time_After (now1 e) expiresAt \<longleftrightarrow> mono expiresAt < mono (now1 e)"
    by (simp add: Time_After_def)
  have b: "downloadHandler D s e r =
              (Reply (http_Error [] ''File not found or expired'' StatusNotFound), [])"
    if "Time_After (now1 e) expiresAt"
    using downloadHandler_expired [OF q assms(2,3) that] .
  have c: "fst (downloadHandler D s e r) \<noteq>
              Reply (http_Error [] ''File not found or expired'' StatusNotFound) \<and>
            OsOpen (Join (storagePath s) fileName) \<in> set (snd (downloadHandler D s e r))"
    if "\<not> Time_After (now1 e) expiresAt"
    unfolding downloadHandler_live [OF q assms(2,3) that]
    by (auto simp: http_Error_def ServeFile_def toHTTPError_def StatusOK_def StatusNotFound_def
               StatusBadRequest_def StatusMovedPermanently_def StatusForbidden_def
               StatusInternalServerError_def
             split: option.splits serve_error.splits)
  have d: "\<exists>h. fst (downloadHandler D s e r) =
                   Reply \<lparr>status = StatusOK, header = h,
                          body = (if Method r = ''HEAD'' then NoBody else FileBytes fl)\<rparr>"
    if "\<not> Time_After (now1 e) expiresAt" "disk s (Join (storagePath s) fileName) = Some fl"
       "\<not> open_fails e" "\<not> stat_fails e" "serve_fault e = None"
       "Path r = ''/download''" "\<not> conditional r \<or> serves_whole e"
    unfolding downloadHandler_live [OF q assms(2,3) that(1)]
    using that(2,3,4) by (simp add: os_Open_def ServeFile_whole [OF that(6,7,5,2)])
  from a b c d show ?thesis by blast
qed

theorem download_at_expiry_instant:
  "files example_uploaded ''simplehost-1700000000.pdf'' = Some (now1 example_env_at_expiry) \<and>
   disk example_uploaded ''uploads/simplehost-1700000000.pdf'' = Some ''abc'' \<and>
   downloadHandler example_detect example_uploaded example_env_at_expiry
       (fetch ''/download?file=simplehost-1700000000.pdf'') =
     (Reply \<lparr>status = 200,
             header = [(''Content-Disposition'',
                          ''attachment; filename='' @ [CHR 0x22] @ ''simplehost-1700000000.pdf'' @ [CHR 0x22]),
                       (''Content-Type'', ''application/octet-stream''),
                       (''Last-Modified'', ''Tue, 14 Nov 2023 22:13:20 GMT''),
                       (''Accept-Ranges'', ''bytes''),
                       (''Content-Length'', ''3'')],
             body = FileBytes ''abc''\<rparr>,
      [OsOpen ''uploads/simplehost-1700000000.pdf'',
       ServeFileOf ''uploads/simplehost-1700000000.pdf''])"
  by (simp add: download_eval_defs example_env_at_expiry_def)

theorem download_expiry_check_witness:
  "Time_After (now1 example_env_expired) \<lparr>wall = 1700003600 * 1000000000 + 900, mono = 3600000005650\<rparr> \<and>
   downloadHandler example_detect example_uploaded example_env_expired
       (fetch ''/download?file=simplehost-1700000000.pdf'') =
     (Reply (http_Error [] ''File not found or expired'' StatusNotFound), []) \<and>
   \<not> Time_After (now1 example_env) \<lparr>wall = 1700003600 * 1000000000 + 900, mono = 3600000005650\<rparr> \<and>
   OsOpen (Join (storagePath example_uploaded) ''simplehost-1700000000.pdf'') \<in>
     set (snd (downloadHandler example_detect example_uploaded example_env
       (fetch ''/download?file=simplehost-1700000000.pdf''))) \<and>
   Path example_head = ''/download'' \<and> \<not> conditional example_head \<and>
   (\<exists>h. fst (downloadHandler example_detect example_uploaded example_env example_head) =
          Reply \<lparr>status = StatusOK, header = h, body = NoBody\<rparr>)"
proof -
  have q: "''simplehost-1700000000.pdf'' =
      Values_Get (ParseQuery (RawQuery (fetch ''/download?file=simplehost-1700000000.pdf''))) ''file''"
    by (simp add: query_defs)
  have qh: "''simplehost-1700000000.pdf'' =
      Values_Get (ParseQuery (RawQuery example_head)) ''file''"
    by (simp add: query_defs example_head_def)
  have ne: "''simplehost-1700000000.pdf'' \<noteq> []" by simp
  have f: "files example_uploaded ''simplehost-1700000000.pdf'' =
      Some \<lparr>wall = 1700003600 * 1000000000 + 900, mono = 3600000005650\<rparr>"
    by (simp add: example_uploaded_def)
  have late: "Time_After (now1 example_env_expired)
      \<lparr>wall = 1700003600 * 1000000000 + 900, mono = 3600000005650\<rparr>"
    by (simp add: Time_After_def example_env_expired_def example_env_def)
  have early: "\<not> Time_After (now1 example_env)
      \<lparr>wall = 1700003600 * 1000000000 + 900, mono = 3600000005650\<rparr>"
    by (simp add: Time_After_def example_env_def)
  have dk: "disk example_uploaded (Join (storagePath example_uploaded) ''simplehost-1700000000.pdf'') =
      Some ''abc''"
    by (simp add: example_uploaded_def Join_def Clean_def IsPathSeparator_def clean_elem_def
        render_def)
  have en: "\<not> open_fails example_env" "\<not> stat_fails example_env" "serve_fault example_env = None"
    by (simp_all add: example_env_def)
  have rq: "Path example_head = ''/download''" "\<not> conditional example_head"
      "Method example_head = ''HEAD''"
    by (simp_all add: example_head_def fetch_def Cut_def conditional_def)
  from download_expiry_check [OF q ne f, of example_env_expired example_detect] late
  have a: "downloadHandler example_detect example_uploaded example_env_expired
       (fetch ''/download?file=simplehost-1700000000.pdf'') =
     (Reply (http_Error [] ''File not found or expired'' StatusNotFound), [])" by blast
  from download_expiry_check [OF q ne f, of example_env example_detect] early
  have b: "OsOpen (Join (storagePath example_uploaded) ''simplehost-1700000000.pdf'') \<in>
     set (snd (downloadHandler example_detect example_uploaded example_env
       (fetch ''/download?file=simplehost-1700000000.pdf'')))" by blast
  from download_expiry_check [OF qh ne f, of example_env example_detect "''abc''"]
    early dk en rq(1,2)
  have "\<exists>h. fst (downloadHandler example_detect example_uploaded example_env example_head) =
          Reply \<lparr>status = StatusOK, header = h,
                 body = (if Method example_head = ''HEAD'' then NoBody else FileBytes ''abc'')\<rparr>"
    by blast
  then have c: "\<exists>h. fst (downloadHandler example_detect example_uploaded example_env example_head) =
          Reply \<lparr>status = StatusOK, header = h, body = NoBody\<rparr>"
    by (simp add: rq(3))
  from late a early b rq(1,2) c show ?thesis by (intro conjI)
qed

text \<open>
  Claim C10. In every download answered with status 200 the \<open>Content-Type\<close> header is
  what the detector returns on a buffer of zero bytes as long as the file on disk; the
  bytes of the file are in the body, or for the method HEAD not written at all, and
  nowhere in the header. Two such downloads of files of one length carry the same
  \<open>Content-Type\<close>, whatever the files hold.
\<close>

theorem content_type_from_size_only:
  assumes "downloadHandler D s1 e1 r1 = (Reply resp1, es1)" and "status resp1 = StatusOK"
      and "downloadHandler D s2 e2 r2 = (Reply resp2, es2)" and "status resp2 = StatusOK"
  shows "\<exists>b1 b2.
           disk s1 (Join (storagePath s1) (Values_Get (ParseQuery (RawQuery r1)) ''file'')) = Some b1 \<and>
           disk s2 (Join (storagePath s2) (Values_Get (ParseQuery (RawQuery r2)) ''file'')) = Some b2 \<and>
           body resp1 = (if Method r1 = ''HEAD'' then NoBody else FileBytes b1) \<and>
           body resp2 = (if Method r2 = ''HEAD'' then NoBody else FileBytes b2) \<and>
           map_of (header resp1) ''Content-Type'' = Some (D (replicate (length b1) (CHR 0x00))) \<and>
           map_of (header resp2) ''Content-Type'' = Some (D (replicate (length b2) (CHR 0x00))) \<and>
           (length b1 = length b2 \<longrightarrow>
              map_of (header resp1) ''Content-Type'' = map_of (header resp2) ''Content-Type'')"
proof -
  have one: "\<exists>b. disk s (Join (storagePath s) (Values_Get (ParseQuery (RawQuery r)) ''file'')) = Some b \<and>
           body resp = (if Method r = ''HEAD'' then NoBody else FileBytes b) \<and>
           map_of (header resp) ''Content-Type'' = Some (D (replicate (length b) (CHR 0x00)))"
    if "downloadHandler D s e r = (Reply resp, es)" "status resp = StatusOK" for s e r resp es
  proof -
    from downloadHandler_ok [OF that] obtain b where
      d: "disk s (Join (storagePath s) (Values_Get (ParseQuery (RawQuery r)) ''file'')) = Some b"
      and r: "resp = \<lparr>status = StatusOK,
                    header = Header_Set ''Content-Length'' (fmt_d (int (length b)))
                               (Header_Set ''Accept-Ranges'' ''bytes''
                                 (case modtime e of
                                    None \<Rightarrow>
                                      Header_Set ''Content-Length'' (fmt_d (int (length b)))
                                        (Header_Set ''Content-Type'' (D (replicate (length b) (CHR 0x00)))
                                          (Header_Set ''Content-Disposition''
                                             (''attachment; filename='' @ [CHR 0x22] @
                                              Values_Get (ParseQuery (RawQuery r)) ''file'' @ [CHR 0x22]) []))
                                  | Some t \<Rightarrow>
                                      Header_Set ''Last-Modified'' t
                                        (Header_Set ''Content-Length'' (fmt_d (int (length b)))
                                          (Header_Set ''Content-Type'' (D (replicate (length b) (CHR 0x00)))
                                            (Header_Set ''Content-Disposition''
                                               (''attachment; filename='' @ [CHR 0x22] @
                                                Values_Get (ParseQuery (RawQuery r)) ''file'' @ [CHR 0x22]) []))))),
                    body = (if Method r = ''HEAD'' then NoBody else FileBytes b)\<rparr>"
      by blast
    have bd: "body resp = (if Method r = ''HEAD'' then NoBody else FileBytes b)"
      by (subst r) simp
    have ct: "map_of (header resp) ''Content-Type'' = Some (D (replicate (length b) (CHR 0x00)))"
      by (subst r) (simp only: response.simps download_headers_Content_Type)
    from d bd ct show ?thesis by blast
  qed
  from one [OF assms(1,2)] obtain b1 where
    1: "disk s1 (Join (storagePath s1) (Values_Get (ParseQuery (RawQuery r1)) ''file'')) = Some b1"
       "body resp1 = (if Method r1 = ''HEAD'' then NoBody else FileBytes b1)"
       "map_of (header resp1) ''Content-Type'' = Some (D (replicate (length b1) (CHR 0x00)))"
    by blast
  from one [OF assms(3,4)] obtain b2 where
    2: "disk s2 (Join (storagePath s2) (Values_Get (ParseQuery (RawQuery r2)) ''file'')) = Some b2"
       "body resp2 = (if Method r2 = ''HEAD'' then NoBody else FileBytes b2)"
       "map_of (header resp2) ''Content-Type'' = Some (D (replicate (length b2) (CHR 0x00)))"
    by blast
  have "length b1 = length b2 \<longrightarrow>
      map_of (header resp1) ''Content-Type'' = map_of (header resp2) ''Content-Type''"
    using 1(3) 2(3) by simp
  with 1 2 show ?thesis by blast
qed

theorem content_type_from_size_only_witness:
  "example_detect ''abc'' = ''application/octet-stream'' \<and>
   example_detect ''%PD'' = ''application/pdf'' \<and>
   fst (downloadHandler example_detect example_uploaded example_env example_head) =
     Reply ((example_reply ''abc'')\<lparr>body := NoBody\<rparr>) \<and>
   fst (downloadHandler example_detect example_uploaded_pdf example_env
       (fetch ''/download?file=simplehost-1700000000.pdf'')) = Reply (example_reply ''%PD'') \<and>
   disk example_uploaded ''uploads/simplehost-1700000000.pdf'' = Some ''abc'' \<and>
   disk example_uploaded_pdf ''uploads/simplehost-1700000000.pdf'' = Some ''%PD'' \<and>
   map_of (header ((example_reply ''abc'')\<lparr>body := NoBody\<rparr>)) ''Content-Type'' =
     Some (example_detect (replicate 3 (CHR 0x00))) \<and>
   map_of (header ((example_reply ''abc'')\<lparr>body := NoBody\<rparr>)) ''Content-Type'' =
     map_of (header (example_reply ''%PD'')) ''Content-Type''"
proof -
  have ok: "status ((example_reply ''abc'')\<lparr>body := NoBody\<rparr>) = StatusOK"
      "status (example_reply ''%PD'') = StatusOK"
    by (simp_all add: example_reply_def StatusOK_def)
  have p1: "Join (storagePath example_uploaded)
      (Values_Get (ParseQuery (RawQuery example_head)) ''file'') = ''uploads/simplehost-1700000000.pdf''"
    by (simp add: query_defs example_head_def example_uploaded_def Join_def Clean_def
        IsPathSeparator_def clean_elem_def render_def)
  have p2: "Join (storagePath example_uploaded_pdf)
      (Values_Get (ParseQuery (RawQuery (fetch ''/download?file=simplehost-1700000000.pdf''))) ''file'') =
      ''uploads/simplehost-1700000000.pdf''"
    by (simp add: query_defs example_uploaded_pdf_def example_uploaded_def Join_def Clean_def
        IsPathSeparator_def clean_elem_def render_def)
  have d1: "disk example_uploaded ''uploads/simplehost-1700000000.pdf'' = Some ''abc''"
    by (simp add: example_uploaded_def)
  have d2: "disk example_uploaded_pdf ''uploads/simplehost-1700000000.pdf'' = Some ''%PD''"
    by (simp add: example_uploaded_pdf_def)
  from content_type_from_size_only [OF example_download_head ok(1) example_download_pdf ok(2)]
  obtain b1 b2 where
    h: "disk example_uploaded ''uploads/simplehost-1700000000.pdf'' = Some b1"
       "disk example_uploaded_pdf ''uploads/simplehost-1700000000.pdf'' = Some b2"
       "map_of (header ((example_reply ''abc'')\<lparr>body := NoBody\<rparr>)) ''Content-Type'' =
          Some (example_detect (replicate (length b1) (CHR 0x00)))"
       "length b1 = length b2 \<longrightarrow>
          map_of (header ((example_reply ''abc'')\<lparr>body := NoBody\<rparr>)) ''Content-Type'' =
          map_of (header (example_reply ''%PD'')) ''Content-Type''"
    unfolding p1 p2 by blast
  from h(1,2) d1 d2 have b: "b1 = ''abc''" "b2 = ''%PD''" by simp_all
  have d: "example_detect ''abc'' = ''application/octet-stream''"
      "example_detect ''%PD'' = ''application/pdf''"
    by (simp_all add: example_detect_def)
  from h(3,4) b have
    "map_of (header ((example_reply ''abc'')\<lparr>body := NoBody\<rparr>)) ''Content-Type'' =
       Some (example_detect (replicate 3 (CHR 0x00)))"
    "map_of (header ((example_reply ''abc'')\<lparr>body := NoBody\<rparr>)) ''Content-Type'' =
       map_of (header (example_reply ''%PD'')) ''Content-Type''"
    by (simp_all add: numeral_3_eq_3)
  with d d1 d2 show ?thesis
    by (simp only: example_download_head example_download_pdf fst_conv)
qed

text \<open>
  Claim C6. \<open>uploadHandler\<close>, given a request whose method is not POST, answers 405 and
  has no effect: no file is written and the registry is as before. The route \<open>/upload\<close>
  of \<open>main\<close> does not pass such a request on to the handler; it has no effect either.
\<close>

theorem upload_wrong_method:
  assumes "Method r \<noteq> ''POST''"
  shows "uploadHandler s e r =
           (Reply (http_Error [] ''Only POST method is allowed'' StatusMethodNotAllowed), []) \<and>
         status (http_Error [] ''Only POST method is allowed'' StatusMethodNotAllowed) = 405 \<and>
         run_effects s (snd (uploadHandler s e r)) = s \<and>
         (Path r = ''/upload'' \<longrightarrow> snd (ServeHTTP D s e r) = [] \<and> do_step D s (Request e r) = s)"
proof -
  have a: "uploadHandler s e r =
      (Reply (http_Error [] ''Only POST method is allowed'' StatusMethodNotAllowed), [])"
    using assms by (simp add: uploadHandler_def)
  have b: "status (http_Error [] ''Only POST method is allowed'' StatusMethodNotAllowed) = 405"
    by (simp add: http_Error_def StatusMethodNotAllowed_def)
  have c: "run_effects s (snd (uploadHandler s e r)) = s"
    by (simp add: a run_effects_Nil)
  have d: "snd (ServeHTTP D s e r) = [] \<and> do_step D s (Request e r) = s" if "Path r = ''/upload''"
    using ServeHTTP_upload_not_POST [OF that assms, of D s e] by (simp add: run_effects_Nil)
  from a b c d show ?thesis by blast
qed

theorem upload_wrong_method_witness:
  "Method example_put \<noteq> ''POST'' \<and>
   uploadHandler example_world example_env example_put =
     (Reply (http_Error [] ''Only POST method is allowed'' StatusMethodNotAllowed), []) \<and>
   Path example_put = ''/upload'' \<and>
   do_step example_detect example_world (Request example_env example_put) = example_world"
proof -
  have m: "Method example_put \<noteq> ''POST''" by (simp add: example_put_def example_upload_def)
  have p: "Path example_put = ''/upload''" by (simp add: example_put_def example_upload_def)
  from upload_wrong_method [OF m, of example_world example_env example_detect] m p
  show ?thesis by blast
qed

text \<open>
  Claim C7. \<open>deleteFile\<close> fails to remove the file exactly when the file is missing or
  the system refuses. Then it only prints the error: registry and disk are as before,
  and every request is answered as it would have been without the attempt. When the
  removal succeeds, the file is gone from the disk and the entry of that name is gone
  from the registry. \<open>deleteFile\<close> has no result: nothing of it reaches a request.
\<close>

theorem deleteFile_outcomes:
  "(os_Remove s e (Join (storagePath s) fileName) \<noteq> None \<longleftrightarrow>
      disk s (Join (storagePath s) fileName) = None \<or> remove_fault e \<noteq> None) \<and>
   (os_Remove s e (Join (storagePath s) fileName) \<noteq> None \<longrightarrow>
      (\<exists>err. deleteFile s e fileName = [Printf (''Error deleting file: '' @ err @ newline)]) \<and>
      files (run_effects s (deleteFile s e fileName)) = files s \<and>
      disk (run_effects s (deleteFile s e fileName)) = disk s \<and>
      (\<forall>D e' r. ServeHTTP D (run_effects s (deleteFile s e fileName)) e' r = ServeHTTP D s e' r)) \<and>
   (os_Remove s e (Join (storagePath s) fileName) = None \<longrightarrow>
      deleteFile s e fileName =
        [OsRemove (Join (storagePath s) fileName), MapDelete fileName,
         Printf (''File deleted: '' @ fileName @ newline)] \<and>
      files (run_effects s (deleteFile s e fileName)) = (files s)(fileName := None) \<and>
      disk (run_effects s (deleteFile s e fileName)) =
        (disk s)(Join (storagePath s) fileName := None))"
proof -
  have f: "(\<exists>err. deleteFile s e fileName = [Printf (''Error deleting file: '' @ err @ newline)]) \<and>
      files (run_effects s (deleteFile s e fileName)) = files s \<and>
      disk (run_effects s (deleteFile s e fileName)) = disk s \<and>
      (\<forall>D e' r. ServeHTTP D (run_effects s (deleteFile s e fileName)) e' r = ServeHTTP D s e' r)"
    if "os_Remove s e (Join (storagePath s) fileName) \<noteq> None"
  proof -
    from that obtain err where err: "os_Remove s e (Join (storagePath s) fileName) = Some err"
      by auto
    note d = deleteFile_fails [OF err]
    have w: "run_effects s (deleteFile s e fileName) =
        s\<lparr>stdout := stdout s @ [''Error deleting file: '' @ err @ newline]\<rparr>"
      by (simp add: d run_effects_def)
    have "ServeHTTP D (run_effects s (deleteFile s e fileName)) e' r = ServeHTTP D s e' r"
      for D e' r
      unfolding w by (rule ServeHTTP_reads) simp_all
    then have r: "\<forall>D e' r. ServeHTTP D (run_effects s (deleteFile s e fileName)) e' r =
        ServeHTTP D s e' r" by blast
    have x: "\<exists>err. deleteFile s e fileName = [Printf (''Error deleting file: '' @ err @ newline)]"
      using d by blast
    have fl: "files (run_effects s (deleteFile s e fileName)) = files s"
      and dk: "disk (run_effects s (deleteFile s e fileName)) = disk s"
      unfolding w by simp_all
    from x fl dk r show ?thesis by (intro conjI)
  qed
  have g: "deleteFile s e fileName =
        [OsRemove (Join (storagePath s) fileName), MapDelete fileName,
         Printf (''File deleted: '' @ fileName @ newline)] \<and>
      files (run_effects s (deleteFile s e fileName)) = (files s)(fileName := None) \<and>
      disk (run_effects s (deleteFile s e fileName)) =
        (disk s)(Join (storagePath s) fileName := None)"
    if "os_Remove s e (Join (storagePath s) fileName) = None"
    by (simp add: deleteFile_removes [OF that] run_effects_def)
  from f g os_Remove_fails_iff [of s e "Join (storagePath s) fileName"] show ?thesis by blast
qed

theorem deleteFile_outcomes_witness:
  "os_Remove example_world example_env
      (Join (storagePath example_world) ''simplehost-1700000000.pdf'') \<noteq> None \<and>
   files (run_effects example_world
      (deleteFile example_world example_env ''simplehost-1700000000.pdf'')) = files example_world \<and>
   os_Remove example_uploaded example_env
      (Join (storagePath example_uploaded) ''simplehost-1700000000.pdf'') = None \<and>
   files (run_effects example_uploaded
      (deleteFile example_uploaded example_env ''simplehost-1700000000.pdf'')) =
     (files example_uploaded)(''simplehost-1700000000.pdf'' := None) \<and>
   disk (run_effects example_uploaded
      (deleteFile example_uploaded example_env ''simplehost-1700000000.pdf''))
      ''uploads/simplehost-1700000000.pdf'' = None"
proof -
  have j: "Join ''./uploads'' ''simplehost-1700000000.pdf'' = ''uploads/simplehost-1700000000.pdf''"
    by (simp add: Join_def Clean_def IsPathSeparator_def clean_elem_def render_def)
  have a: "os_Remove example_world example_env
      (Join (storagePath example_world) ''simplehost-1700000000.pdf'') \<noteq> None"
    by (simp add: os_Remove_def example_world_def NewServer_def)
  have b: "os_Remove example_uploaded example_env
      (Join (storagePath example_uploaded) ''simplehost-1700000000.pdf'') = None"
    by (simp add: os_Remove_def example_uploaded_def j example_env_def)
  have p: "Join (storagePath example_uploaded) ''simplehost-1700000000.pdf'' =
      ''uploads/simplehost-1700000000.pdf''"
    by (simp add: example_uploaded_def j)
  from deleteFile_outcomes [of example_world example_env "''simplehost-1700000000.pdf''"] a
  have c: "files (run_effects example_world
      (deleteFile example_world example_env ''simplehost-1700000000.pdf'')) = files example_world"
    by blast
  from deleteFile_outcomes [of example_uploaded example_env "''simplehost-1700000000.pdf''"] b
  have d: "files (run_effects example_uploaded
      (deleteFile example_uploaded example_env ''simplehost-1700000000.pdf'')) =
     (files example_uploaded)(''simplehost-1700000000.pdf'' := None)"
    and e: "disk (run_effects example_uploaded
      (deleteFile example_uploaded example_env ''simplehost-1700000000.pdf'')) =
        (disk example_uploaded)(Join (storagePath example_uploaded) ''simplehost-1700000000.pdf'' := None)"
    by blast+
  from e have "disk (run_effects example_uploaded
      (deleteFile example_uploaded example_env ''simplehost-1700000000.pdf''))
      ''uploads/simplehost-1700000000.pdf'' = None"
    by (simp add: p)
  with a b c d show ?thesis by (intro conjI)
qed

text \<open>
  Claim C8. The effects of a successful upload are, in this order: the file is created,
  the bytes are copied into it, the registry entry is stored, the timer of 60 minutes is
  set. After the first two the file holds all the uploaded bytes while registry and
  timers are as before; after the third the entry is there and the timers are as before;
  the fourth adds the one timer. An upload that does not succeed stores no entry and
  sets no timer.
\<close>

theorem upload_effect_order:
  assumes "uploadHandler s e r = (rep, es)"
  shows "(succeeded rep \<longrightarrow>
            (\<exists>form fl fh p name.
               ParseMultipartForm (10 * 2 ^ 20) e r = Inr form \<and>
               FormFile e form ''file'' = Some (fl, fh) \<and>
               name = newFileName (now1 e) (Filename fh) \<and> p = Join (storagePath s) name \<and>
               es = [OsCreate p, IoCopy p fl, MapStore name (Time_Add (now2 e) (60 * Minute)),
                     AfterFunc (60 * Minute) name] \<and>
               disk (run_effects s (take 2 es)) p = Some fl \<and>
               files (run_effects s (take 2 es)) = files s \<and>
               timers (run_effects s (take 2 es)) = timers s \<and>
               files (run_effects s (take 3 es)) = (files s)(name \<mapsto> Time_Add (now2 e) (60 * Minute)) \<and>
               timers (run_effects s (take 3 es)) = timers s \<and>
               timers (run_effects s es) = timers s @ [(60 * Minute, name)])) \<and>
         (\<not> succeeded rep \<longrightarrow>
            (\<forall>n t. MapStore n t \<notin> set es) \<and> (\<forall>d n. AfterFunc d n \<notin> set es) \<and>
            files (run_effects s es) = files s \<and> timers (run_effects s es) = timers s)"
proof -
  have a: "\<exists>form fl fh p name.
               ParseMultipartForm (10 * 2 ^ 20) e r = Inr form \<and>
               FormFile e form ''file'' = Some (fl, fh) \<and>
               name = newFileName (now1 e) (Filename fh) \<and> p = Join (storagePath s) name \<and>
               es = [OsCreate p, IoCopy p fl, MapStore name (Time_Add (now2 e) (60 * Minute)),
                     AfterFunc (60 * Minute) name] \<and>
               disk (run_effects s (take 2 es)) p = Some fl \<and>
               files (run_effects s (take 2 es)) = files s \<and>
               timers (run_effects s (take 2 es)) = timers s \<and>
               files (run_effects s (take 3 es)) = (files s)(name \<mapsto> Time_Add (now2 e) (60 * Minute)) \<and>
               timers (run_effects s (take 3 es)) = timers s \<and>
               timers (run_effects s es) = timers s @ [(60 * Minute, name)]"
    if "succeeded rep"
  proof -
    from uploadHandler_succeeded [OF assms that] obtain resp where
      resp: "rep = Reply resp" "status resp = StatusOK" by blast
    from uploadHandler_ok [OF assms [unfolded resp(1)] resp(2)] obtain form fl fh where
      h: "ParseMultipartForm (10 * 2 ^ 20) e r = Inr form" "FormFile e form ''file'' = Some (fl, fh)"
         "es = [OsCreate (Join (storagePath s) (newFileName (now1 e) (Filename fh))),
                 IoCopy (Join (storagePath s) (newFileName (now1 e) (Filename fh))) fl,
                 MapStore (newFileName (now1 e) (Filename fh)) (Time_Add (now2 e) expiryDuration),
                 AfterFunc expiryDuration (newFileName (now1 e) (Filename fh))]"
      by blast
    define name where "name = newFileName (now1 e) (Filename fh)"
    define p where "p = Join (storagePath s) name"
    have es: "es = [OsCreate p, IoCopy p fl, MapStore name (Time_Add (now2 e) (60 * Minute)),
                     AfterFunc (60 * Minute) name]"
      using h(3) by (simp add: name_def p_def expiryDuration_def)
    have t2: "take 2 es = [OsCreate p, IoCopy p fl]"
      and t3: "take 3 es = [OsCreate p, IoCopy p fl, MapStore name (Time_Add (now2 e) (60 * Minute))]"
      by (simp_all add: es)
    have 1: "disk (run_effects s (take 2 es)) p = Some fl"
      and 2: "files (run_effects s (take 2 es)) = files s"
      and 3: "timers (run_effects s (take 2 es)) = timers s"
      unfolding t2 by (simp_all add: run_effects_def)
    have 4: "files (run_effects s (take 3 es)) = (files s)(name \<mapsto> Time_Add (now2 e) (60 * Minute))"
      and 5: "timers (run_effects s (take 3 es)) = timers s"
      unfolding t3 by (simp_all add: run_effects_def)
    have 6: "timers (run_effects s es) = timers s @ [(60 * Minute, name)]"
      unfolding es by (simp add: run_effects_def)
    from h(1,2) name_def p_def es 1 2 3 4 5 6 show ?thesis by blast
  qed
  have b: "(\<forall>n t. MapStore n t \<notin> set es) \<and> (\<forall>d n. AfterFunc d n \<notin> set es) \<and>
            files (run_effects s es) = files s \<and> timers (run_effects s es) = timers s"
    if "\<not> succeeded rep"
    using uploadHandler_not_ok [OF assms that] by (auto simp: run_effects_def)
  from a b show ?thesis by blast
qed

theorem upload_effect_order_witness:
  "succeeded (fst (uploadHandler example_world example_env (example_upload ''report.pdf'' ''abc''))) \<and>
   snd (uploadHandler example_world example_env (example_upload ''report.pdf'' ''abc'')) =
     [OsCreate ''uploads/simplehost-1700000000.pdf'',
      IoCopy ''uploads/simplehost-1700000000.pdf'' ''abc'',
      MapStore ''simplehost-1700000000.pdf''
        \<lparr>wall = 1700003600 * 1000000000 + 900, mono = 3600000005650\<rparr>,
      AfterFunc 3600000000000 ''simplehost-1700000000.pdf''] \<and>
   disk (run_effects example_world
      [OsCreate ''uploads/simplehost-1700000000.pdf'',
       IoCopy ''uploads/simplehost-1700000000.pdf'' ''abc''])
      ''uploads/simplehost-1700000000.pdf'' = Some ''abc'' \<and>
   files (run_effects example_world
      [OsCreate ''uploads/simplehost-1700000000.pdf'',
       IoCopy ''uploads/simplehost-1700000000.pdf'' ''abc'']) = files example_world \<and>
   \<not> succeeded (fst (uploadHandler example_world example_env_copy_stops
        (example_upload ''report.pdf'' ''abc''))) \<and>
   files (run_effects example_world
      [OsCreate ''uploads/simplehost-1700000000.pdf'',
       IoCopy ''uploads/simplehost-1700000000.pdf'' ''a'']) = files example_world \<and>
   timers (run_effects example_world
      [OsCreate ''uploads/simplehost-1700000000.pdf'',
       IoCopy ''uploads/simplehost-1700000000.pdf'' ''a'']) = timers example_world"
proof -
  note ok = example_upload_run
  note bad = example_upload_copy_stops
  have s1: "succeeded (Reply \<lparr>status = 200, header = [(''Content-Type'', ''text/html'')],
             body = UploadedPage ''simplehost-1700000000.pdf''
                      ''/download?file=simplehost-1700000000.pdf''\<rparr>)"
    by (simp add: succeeded_def StatusOK_def)
  have s2: "\<not> succeeded (Reply (http_Error [] ''Unable to save the file'' StatusInternalServerError))"
    by (simp add: succeeded_def StatusOK_def StatusInternalServerError_def http_Error_def)
  from upload_effect_order [OF ok] s1 obtain form fl fh p name where
    h: "[OsCreate ''uploads/simplehost-1700000000.pdf'',
         IoCopy ''uploads/simplehost-1700000000.pdf'' ''abc'',
         MapStore ''simplehost-1700000000.pdf''
           \<lparr>wall = 1700003600 * 1000000000 + 900, mono = 3600000005650\<rparr>,
         AfterFunc 3600000000000 ''simplehost-1700000000.pdf''] =
        [OsCreate p, IoCopy p fl, MapStore name (Time_Add (now2 example_env) (60 * Minute)),
         AfterFunc (60 * Minute) name]"
       "disk (run_effects example_world (take 2 [OsCreate ''uploads/simplehost-1700000000.pdf'',
         IoCopy ''uploads/simplehost-1700000000.pdf'' ''abc'',
         MapStore ''simplehost-1700000000.pdf''
           \<lparr>wall = 1700003600 * 1000000000 + 900, mono = 3600000005650\<rparr>,
         AfterFunc 3600000000000 ''simplehost-1700000000.pdf''])) p = Some fl"
       "files (run_effects example_world (take 2 [OsCreate ''uploads/simplehost-1700000000.pdf'',
         IoCopy ''uploads/simplehost-1700000000.pdf'' ''abc'',
         MapStore ''simplehost-1700000000.pdf''
           \<lparr>wall = 1700003600 * 1000000000 + 900, mono = 3600000005650\<rparr>,
         AfterFunc 3600000000000 ''simplehost-1700000000.pdf''])) = files example_world"
    by blast
  from h(1) have pf: "p = ''uploads/simplehost-1700000000.pdf''" "fl = ''abc''" by auto
  from h(2,3) pf have a:
    "disk (run_effects example_world
      [OsCreate ''uploads/simplehost-1700000000.pdf'',
       IoCopy ''uploads/simplehost-1700000000.pdf'' ''abc''])
      ''uploads/simplehost-1700000000.pdf'' = Some ''abc''"
    "files (run_effects example_world
      [OsCreate ''uploads/simplehost-1700000000.pdf'',
       IoCopy ''uploads/simplehost-1700000000.pdf'' ''abc'']) = files example_world"
    by simp_all
  from upload_effect_order [OF bad] s2 have b:
    "files (run_effects example_world
      [OsCreate ''uploads/simplehost-1700000000.pdf'',
       IoCopy ''uploads/simplehost-1700000000.pdf'' ''a'']) = files example_world"
    "timers (run_effects example_world
      [OsCreate ''uploads/simplehost-1700000000.pdf'',
       IoCopy ''uploads/simplehost-1700000000.pdf'' ''a'']) = timers example_world"
    by blast+
  from s1 s2 a b show ?thesis
    by (simp only: ok bad fst_conv snd_conv) simp
qed

text \<open>
  Claim C1, at an upload whose link does not lead back to the file. The file
  \<open>notes.c++\<close> is accepted and stored with its three bytes under
  \<open>simplehost-1700000000.c++\<close>. The page gives the link
  \<open>/download?file=simplehost-1700000000.c++\<close> with the name as it is, not escaped.
  Fetched at once, the link is answered 404: the query decodes each \<open>+\<close> to a space, and
  the name with two spaces is not in the registry. (By \<open>upload_download_by_name\<close> the
  uploaded bytes do come back whenever the \<open>file\<close> parameter decodes to the stored
  name, which by \<open>fetch_downloadLink\<close> is the case for a name free of \<open>&\<close>, \<open>;\<close>, \<open>%\<close>
  and \<open>+\<close>.)
\<close>

theorem link_with_plus_not_found:
  "uploadHandler example_world example_env (example_upload ''notes.c++'' ''abc'') =
     (Reply \<lparr>status = 200, header = [(''Content-Type'', ''text/html'')],
             body = UploadedPage ''simplehost-1700000000.c++''
                      ''/download?file=simplehost-1700000000.c++''\<rparr>,
      [OsCreate ''uploads/simplehost-1700000000.c++'',
       IoCopy ''uploads/simplehost-1700000000.c++'' ''abc'',
       MapStore ''simplehost-1700000000.c++''
         \<lparr>wall = 1700003600 * 1000000000 + 900, mono = 3600000005650\<rparr>,
       AfterFunc 3600000000000 ''simplehost-1700000000.c++'']) \<and>
   disk (do_step example_detect example_world
           (Request example_env (example_upload ''notes.c++'' ''abc'')))
     ''uploads/simplehost-1700000000.c++'' = Some ''abc'' \<and>
   Values_Get (ParseQuery (RawQuery (fetch ''/download?file=simplehost-1700000000.c++''))) ''file'' =
     ''simplehost-1700000000.c  '' \<and>
   ServeHTTP example_detect
     (do_step example_detect example_world
        (Request example_env (example_upload ''notes.c++'' ''abc'')))
     example_env (fetch ''/download?file=simplehost-1700000000.c++'') =
     (Reply (http_Error [] ''File not found or expired'' StatusNotFound), [])"
proof -
  have q: "Values_Get (ParseQuery (RawQuery (fetch ''/download?file=simplehost-1700000000.c++''))) ''file'' =
     ''simplehost-1700000000.c  ''"
    by (simp add: query_defs)
  have d: "disk example_uploaded_cpp ''uploads/simplehost-1700000000.c++'' = Some ''abc''"
    by (simp add: example_uploaded_cpp_def)
  have p: "Path (fetch ''/download?file=simplehost-1700000000.c++'') = ''/download''"
    by (simp add: fetch_def Cut_def)
  have "files example_uploaded_cpp ''simplehost-1700000000.c  '' = None"
    by (simp add: example_uploaded_cpp_def)
  from downloadHandler_unregistered [OF q _ this, of example_detect example_env]
  have "ServeHTTP example_detect example_uploaded_cpp example_env
      (fetch ''/download?file=simplehost-1700000000.c++'') =
     (Reply (http_Error [] ''File not found or expired'' StatusNotFound), [])"
    by (simp add: ServeHTTP_def p)
  with q d show ?thesis
    by (simp only: example_upload_cpp example_upload_cpp_step)
qed

text \<open>
  Claim C4, at an upload over the limit. A form whose one file has 10 MiB and one byte
  is parsed without error: \<open>ParseMultipartForm(10 << 20)\<close> keeps 10 MiB of file parts
  in memory and moves a larger part to a temporary file. The upload is answered 200 and
  the whole file is written to the storage directory. (By \<open>uploadHandler_any_size\<close> the
  same holds for a file of any size.)
\<close>

theorem upload_over_cap_is_stored:
  "int (length example_big) = 10 * 2 ^ 20 + 1 \<and>
   uploadHandler example_world example_env (example_upload ''big.bin'' example_big) =
     (Reply \<lparr>status = 200, header = [(''Content-Type'', ''text/html'')],
             body = UploadedPage ''simplehost-1700000000.bin''
                      ''/download?file=simplehost-1700000000.bin''\<rparr>,
      [OsCreate ''uploads/simplehost-1700000000.bin'',
       IoCopy ''uploads/simplehost-1700000000.bin'' example_big,
       MapStore ''simplehost-1700000000.bin''
         \<lparr>wall = 1700003600 * 1000000000 + 900, mono = 3600000005650\<rparr>,
       AfterFunc 3600000000000 ''simplehost-1700000000.bin'']) \<and>
   disk (do_step example_detect example_world
           (Request example_env (example_upload ''big.bin'' example_big)))
     ''uploads/simplehost-1700000000.bin'' = Some example_big"
proof -
  have "do_step example_detect example_world
           (Request example_env (example_upload ''big.bin'' example_big)) =
        run_effects example_world
          (snd (uploadHandler example_world example_env (example_upload ''big.bin'' example_big)))"
    by (simp add: ServeHTTP_def example_upload_def)
  then have "disk (do_step example_detect example_world
           (Request example_env (example_upload ''big.bin'' example_big)))
     ''uploads/simplehost-1700000000.bin'' = Some example_big"
    by (simp add: example_upload_big run_effects_def)
  then show ?thesis by (simp add: example_upload_big example_big_length)
qed

end
